theory Spec2Isabelle
  imports Complex_Main "HOL-Library.Log_Nat"
begin

section \<open>JavaScript values read by the analysis pipeline\<close>

text \<open>
  The pipeline of \<^verbatim>\<open>src/src/jj.js\<close> works on JavaScript numbers that may be
  \<^verbatim>\<open>NaN\<close>, infinite, or a negative zero, and on fields that may be
  \<^verbatim>\<open>undefined\<close>. A finite number is modelled by the rational it denotes (every
  finite double is a rational). The pipeline has two quotients, the volume ratio and the
  confidence: both are rounded to the nearest double, as the division of the source is.
  The sums, differences and products of the scoring are written without rounding: they
  are on multiples of one half below 200, which doubles add and subtract exactly, and in
  doubles \<^verbatim>\<open>15 * 0.7\<close> is 10.5, \<^verbatim>\<open>15 * 0.3\<close> is 4.5 and \<^verbatim>\<open>120 * 0.5\<close> is 60.
\<close>

datatype jsnum = NaN | NInf | NZero | Fin rat | PInf

datatype jsval = Undefined | Number jsnum

text \<open>\<^verbatim>\<open>ToNumber\<close>: the conversion the relational operators and \<^verbatim>\<open>isNaN\<close> apply.\<close>

fun toNumber :: "jsval \<Rightarrow> jsnum" where
  "toNumber Undefined = NaN"
| "toNumber (Number n) = n"

definition isNaN :: "jsval \<Rightarrow> bool" where
  "isNaN v = (toNumber v = NaN)"

text \<open>The order of the non-NaN numbers: both zeros are equal.\<close>

fun rank :: "jsnum \<Rightarrow> int" where
  "rank NInf = -1"
| "rank PInf = 1"
| "rank _ = 0"

fun mag :: "jsnum \<Rightarrow> rat" where
  "mag (Fin r) = r"
| "mag _ = 0"

definition num_lt :: "jsnum \<Rightarrow> jsnum \<Rightarrow> bool" where
  "num_lt a b = (a \<noteq> NaN \<and> b \<noteq> NaN \<and>
     (rank a < rank b \<or> (rank a = rank b \<and> mag a < mag b)))"

definition num_le :: "jsnum \<Rightarrow> jsnum \<Rightarrow> bool" where
  "num_le a b = (a \<noteq> NaN \<and> b \<noteq> NaN \<and> \<not> num_lt b a)"

text \<open>\<^verbatim>\<open>x < y\<close>, \<^verbatim>\<open>x > y\<close>, \<^verbatim>\<open>x <= y\<close>, \<^verbatim>\<open>x >= y\<close>: false as soon as one side is NaN.\<close>

definition js_lt :: "jsval \<Rightarrow> jsval \<Rightarrow> bool" where
  "js_lt x y = num_lt (toNumber x) (toNumber y)"

definition js_gt :: "jsval \<Rightarrow> jsval \<Rightarrow> bool" where
  "js_gt x y = num_lt (toNumber y) (toNumber x)"

definition js_le :: "jsval \<Rightarrow> jsval \<Rightarrow> bool" where
  "js_le x y = num_le (toNumber x) (toNumber y)"

definition js_ge :: "jsval \<Rightarrow> jsval \<Rightarrow> bool" where
  "js_ge x y = num_le (toNumber y) (toNumber x)"

text \<open>
  Rounding to the nearest double, ties to the even significand. \<open>rne\<close> rounds a rational
  to the nearest integer, ties to even; \<open>binade a\<close> is the exponent \<open>e\<close> with
  \<open>2^e \<le> a < 2^(e+1)\<close> of a positive \<open>a\<close>. The doubles of a binade are the multiples
  of \<open>2^(e-52)\<close>, and below \<open>2^(-1022)\<close> (the subnormal numbers) the multiples of
  \<open>2^(-1074)\<close>. The result is a rational: it is zero when the number underflows and at
  least \<open>2^1024\<close> when it overflows, which the division below turns into a signed zero
  and an infinity.
\<close>

definition rne :: "rat \<Rightarrow> int" where
  "rne x =
     (let f = \<lfloor>x\<rfloor>; d = x - of_int f
      in if d < 1 / 2 then f else if 1 / 2 < d then f + 1 else if even f then f else f + 1)"

definition binade :: "rat \<Rightarrow> int" where
  "binade a = (if 1 \<le> a then bitlen \<lfloor>a\<rfloor> - 1 else - bitlen (\<lceil>1 / a\<rceil> - 1))"

definition round_double :: "rat \<Rightarrow> rat" where
  "round_double x =
     (if x = 0 then 0
      else let e = max (binade \<bar>x\<bar>) (- 1022);
               ulp = 2 powi (e - 52)
           in sgn x * (of_int (rne (\<bar>x\<bar> / ulp)) * ulp))"

text \<open>IEEE division: the quotient of two finite non-zero doubles is rounded.\<close>

fun negative :: "jsnum \<Rightarrow> bool" where
  "negative NInf = True"
| "negative NZero = True"
| "negative (Fin r) = (r < 0)"
| "negative _ = False"

definition is_inf :: "jsnum \<Rightarrow> bool" where
  "is_inf a = (a = NInf \<or> a = PInf)"

definition is_zero :: "jsnum \<Rightarrow> bool" where
  "is_zero a = (a = NZero \<or> a = Fin 0)"

definition signed_inf :: "bool \<Rightarrow> jsnum" where
  "signed_inf s = (if s then NInf else PInf)"

definition signed_zero :: "bool \<Rightarrow> jsnum" where
  "signed_zero s = (if s then NZero else Fin 0)"

definition num_div :: "jsnum \<Rightarrow> jsnum \<Rightarrow> jsnum" where
  "num_div a b =
     (if a = NaN \<or> b = NaN then NaN
      else if is_inf a then (if is_inf b then NaN else signed_inf (negative a \<noteq> negative b))
      else if is_inf b then signed_zero (negative a \<noteq> negative b)
      else if is_zero b then (if is_zero a then NaN else signed_inf (negative a \<noteq> negative b))
      else if is_zero a then signed_zero (negative a \<noteq> negative b)
      else let q = round_double (mag a / mag b)
           in if 2 ^ 1024 \<le> \<bar>q\<bar> then signed_inf (negative a \<noteq> negative b)
              else if q = 0 then signed_zero (negative a \<noteq> negative b)
              else Fin q)"

text \<open>\<^verbatim>\<open>xs[i]\<close>: \<^verbatim>\<open>undefined\<close> outside the array.\<close>

definition elem_at :: "jsval list \<Rightarrow> int \<Rightarrow> jsval" where
  "elem_at xs i = (if 0 \<le> i \<and> i < int (length xs) then xs ! nat i else Undefined)"

section \<open>The indicator bundle\<close>

text \<open>
  The object \<^verbatim>\<open>calculateIndicators\<close> returns and \<^verbatim>\<open>performAnalysis\<close> reads.
  An entry read through \<^verbatim>\<open>?.\<close> may be missing (\<open>None\<close>); the grouped entries are
  \<^verbatim>\<open>{}\<close> when their indicator was not computed, so each of their fields may be missing.
  A \<^verbatim>\<open>values\<close> field is always an array and a \<^verbatim>\<open>current\<close> field is a number or
  \<^verbatim>\<open>undefined\<close>: the types exclude the bundles on which a member access of
  \<^verbatim>\<open>performAnalysis\<close> would raise a TypeError.
\<close>

record series =
  series_values :: "jsval list"
  current :: jsval

record macd_entry =
  MACD :: "jsval list option"
  macd_signal :: "jsval list option"
  histogram :: "jsval list option"
  currentMACD :: jsval
  currentSignal :: jsval
  currentHistogram :: jsval

record bb_entry =
  upper :: "jsval list option"
  middle :: "jsval list option"
  lower :: "jsval list option"
  currentUpper :: jsval
  currentMiddle :: jsval
  currentLower :: jsval

record stochastic_entry =
  stoch_k :: "jsval list option"
  stoch_d :: "jsval list option"
  currentK :: jsval
  currentD :: jsval

record indicators =
  sma20 :: "series option"
  sma50 :: "series option"
  sma200 :: "series option"
  rsi :: "series option"
  macd :: "macd_entry option"
  bollingerbands :: "bb_entry option"
  stochastic :: "stochastic_entry option"
  volumeSma20 :: "series option"
  currentVolume :: jsval

text \<open>\<^verbatim>\<open>e?.current\<close> and \<^verbatim>\<open>e?.xs?.length\<close>.\<close>

definition opt_current :: "series option \<Rightarrow> jsval" where
  "opt_current e = (case e of None \<Rightarrow> Undefined | Some s \<Rightarrow> current s)"

definition opt_values :: "series option \<Rightarrow> jsval list" where
  "opt_values e = (case e of None \<Rightarrow> [] | Some s \<Rightarrow> series_values s)"

definition opt_length :: "jsval list option \<Rightarrow> nat option" where
  "opt_length xs = map_option length xs"

text \<open>\<^verbatim>\<open>n > 1\<close> and \<^verbatim>\<open>n > 0\<close> on a length that may be \<^verbatim>\<open>undefined\<close> (then false).\<close>

definition length_gt :: "nat option \<Rightarrow> nat \<Rightarrow> bool" where
  "length_gt n m = (case n of None \<Rightarrow> False | Some l \<Rightarrow> l > m)"

section \<open>Configuration\<close>

record weights =
  w_trend :: rat
  w_rsi :: rat
  w_smaCrossover :: rat
  w_macd :: rat
  w_volume :: rat
  w_bb :: rat
  w_stochastic :: rat

definition CONFIG_weights :: weights where
  "CONFIG_weights = \<lparr> w_trend = 30, w_rsi = 20, w_smaCrossover = 20, w_macd = 15,
     w_volume = 15, w_bb = 10, w_stochastic = 10 \<rparr>"

definition threshold_buy :: rat where
  "threshold_buy = 1 / 2"

definition threshold_sell :: rat where
  "threshold_sell = - (1 / 2)"

definition rateLimit :: int where
  "rateLimit = 1000"



definition Object_values :: "weights \<Rightarrow> rat list" where
  "Object_values w = [w_trend w, w_rsi w, w_smaCrossover w, w_macd w, w_volume w,
     w_bb w, w_stochastic w]"

definition maxPossibleScore :: rat where
  "maxPossibleScore = foldl (\<lambda>sum weight. sum + weight) 0 (Object_values CONFIG_weights)"

section \<open>The Decision Engine: \<^verbatim>\<open>performAnalysis\<close>\<close>

datatype direction = Buy | Sell | Neutral

text \<open>The rule names, in place of the localized strings of the \<^verbatim>\<open>name\<close> field.\<close>

datatype rule_name = N_Trend | N_RSI | N_Crossover | N_MACD | N_Volume

text \<open>
  The \<^verbatim>\<open>value\<close> field is a localized message; each message of the source is one
  constructor, and a number printed with \<^verbatim>\<open>toFixed(2)\<close> is kept as the number.
\<close>

datatype label =
    L_Uptrend | L_Downtrend | L_Sideways
  | L_Insufficient
  | L_Fixed2 jsnum
  | L_CrossUp | L_CrossDown | L_NoCross
  | L_PreviousInvalid
  | L_MacdCrossUp | L_MacdCrossDown | L_HistogramUp | L_HistogramDown | L_MacdNeutral
  | L_VolumeHighUp jsnum | L_VolumeHighDown jsnum | L_VolumeNormal jsnum
  | L_InsufficientOrInvalid

record contribution =
  name :: rule_name
  display :: label
  signal :: direction
  weight :: rat

record analysis =
  signals :: "contribution list"
  score :: rat
  decision :: direction
  confidence :: rat

definition push :: "contribution \<Rightarrow> analysis \<Rightarrow> analysis" where
  "push c a = a\<lparr>signals := signals a @ [c]\<rparr>"

definition add_score :: "rat \<Rightarrow> analysis \<Rightarrow> analysis" where
  "add_score d a = a\<lparr>score := score a + d\<rparr>"

definition sub_score :: "rat \<Rightarrow> analysis \<Rightarrow> analysis" where
  "sub_score d a = a\<lparr>score := score a - d\<rparr>"

text \<open>1. Trend analysis (lines 221-236).\<close>

definition trend_rule :: "indicators \<Rightarrow> jsval \<Rightarrow> analysis \<Rightarrow> analysis" where
  "trend_rule ind currentPrice a =
     (if opt_current (sma50 ind) \<noteq> Undefined \<and> opt_current (sma200 ind) \<noteq> Undefined then
        let isUptrend = js_gt (opt_current (sma50 ind)) (opt_current (sma200 ind))
                          \<and> js_gt currentPrice (opt_current (sma50 ind));
            isDowntrend = js_lt (opt_current (sma50 ind)) (opt_current (sma200 ind))
                          \<and> js_lt currentPrice (opt_current (sma50 ind))
        in if isUptrend then
             add_score (w_trend CONFIG_weights)
               (push \<lparr>name = N_Trend, display = L_Uptrend, signal = Buy,
                      weight = w_trend CONFIG_weights\<rparr> a)
           else if isDowntrend then
             sub_score (w_trend CONFIG_weights)
               (push \<lparr>name = N_Trend, display = L_Downtrend, signal = Sell,
                      weight = w_trend CONFIG_weights\<rparr> a)
           else push \<lparr>name = N_Trend, display = L_Sideways, signal = Neutral, weight = 0\<rparr> a
      else push \<lparr>name = N_Trend, display = L_Insufficient, signal = Neutral, weight = 0\<rparr> a)"

text \<open>2. RSI analysis (lines 239-251).\<close>

definition rsi_rule :: "indicators \<Rightarrow> analysis \<Rightarrow> analysis" where
  "rsi_rule ind a =
     (if opt_current (rsi ind) \<noteq> Undefined then
        if js_lt (opt_current (rsi ind)) (Number (Fin 30)) then
          add_score (w_rsi CONFIG_weights)
            (push \<lparr>name = N_RSI, display = L_Fixed2 (toNumber (opt_current (rsi ind))),
                   signal = Buy, weight = w_rsi CONFIG_weights\<rparr> a)
        else if js_gt (opt_current (rsi ind)) (Number (Fin 70)) then
          sub_score (w_rsi CONFIG_weights)
            (push \<lparr>name = N_RSI, display = L_Fixed2 (toNumber (opt_current (rsi ind))),
                   signal = Sell, weight = w_rsi CONFIG_weights\<rparr> a)
        else push \<lparr>name = N_RSI, display = L_Fixed2 (toNumber (opt_current (rsi ind))),
                   signal = Neutral, weight = 0\<rparr> a
      else push \<lparr>name = N_RSI, display = L_Insufficient, signal = Neutral, weight = 0\<rparr> a)"

text \<open>3. Moving averages crossover 20/50 (lines 254-274).\<close>

definition crossover_rule :: "indicators \<Rightarrow> analysis \<Rightarrow> analysis" where
  "crossover_rule ind a =
     (if opt_current (sma20 ind) \<noteq> Undefined \<and> length (opt_values (sma20 ind)) > 1 \<and>
         opt_current (sma50 ind) \<noteq> Undefined \<and> length (opt_values (sma50 ind)) > 1 then
        let previousSma20 = elem_at (opt_values (sma20 ind)) (int (length (opt_values (sma20 ind))) - 2);
            previousSma50 = elem_at (opt_values (sma50 ind)) (int (length (opt_values (sma50 ind))) - 2)
        in if previousSma20 \<noteq> Undefined \<and> previousSma50 \<noteq> Undefined \<and>
              \<not> isNaN previousSma20 \<and> \<not> isNaN previousSma50 then
             if js_gt (opt_current (sma20 ind)) (opt_current (sma50 ind))
                \<and> js_le previousSma20 previousSma50 then
               add_score (w_smaCrossover CONFIG_weights)
                 (push \<lparr>name = N_Crossover, display = L_CrossUp, signal = Buy,
                        weight = w_smaCrossover CONFIG_weights\<rparr> a)
             else if js_lt (opt_current (sma20 ind)) (opt_current (sma50 ind))
                \<and> js_ge previousSma20 previousSma50 then
               sub_score (w_smaCrossover CONFIG_weights)
                 (push \<lparr>name = N_Crossover, display = L_CrossDown, signal = Sell,
                        weight = w_smaCrossover CONFIG_weights\<rparr> a)
             else push \<lparr>name = N_Crossover, display = L_NoCross, signal = Neutral, weight = 0\<rparr> a
           else push \<lparr>name = N_Crossover, display = L_PreviousInvalid, signal = Neutral,
                      weight = 0\<rparr> a
      else push \<lparr>name = N_Crossover, display = L_Insufficient, signal = Neutral, weight = 0\<rparr> a)"

text \<open>4. MACD analysis (lines 277-313). The arrays are read only after the guard.\<close>

definition opt_array :: "jsval list option \<Rightarrow> jsval list" where
  "opt_array xs = (case xs of None \<Rightarrow> [] | Some ys \<Rightarrow> ys)"

definition macd_MACD :: "indicators \<Rightarrow> jsval list option" where
  "macd_MACD ind = (case macd ind of None \<Rightarrow> None | Some m \<Rightarrow> MACD m)"

definition macd_signal_of :: "indicators \<Rightarrow> jsval list option" where
  "macd_signal_of ind = (case macd ind of None \<Rightarrow> None | Some m \<Rightarrow> macd_signal m)"

definition macd_histogram :: "indicators \<Rightarrow> jsval list option" where
  "macd_histogram ind = (case macd ind of None \<Rightarrow> None | Some m \<Rightarrow> histogram m)"

definition macd_currentMACD :: "indicators \<Rightarrow> jsval" where
  "macd_currentMACD ind = (case macd ind of None \<Rightarrow> Undefined | Some m \<Rightarrow> currentMACD m)"

definition macd_currentSignal :: "indicators \<Rightarrow> jsval" where
  "macd_currentSignal ind = (case macd ind of None \<Rightarrow> Undefined | Some m \<Rightarrow> currentSignal m)"

definition macd_rule :: "indicators \<Rightarrow> analysis \<Rightarrow> analysis" where
  "macd_rule ind a =
     (if length_gt (opt_length (macd_MACD ind)) 1 \<and>
         length_gt (opt_length (macd_signal_of ind)) 1 \<and>
         length_gt (opt_length (macd_histogram ind)) 1 then
        let ms = opt_array (macd_MACD ind);
            ss = opt_array (macd_signal_of ind);
            hs = opt_array (macd_histogram ind);
            previousMACD = elem_at ms (int (length ms) - 2);
            previousSignal = elem_at ss (int (length ss) - 2);
            currentMACD = macd_currentMACD ind;
            currentSignal = macd_currentSignal ind;
            currentHistogram = elem_at hs (int (length hs) - 1);
            previousHistogram = elem_at hs (int (length hs) - 2)
        in if currentMACD \<noteq> Undefined \<and> currentSignal \<noteq> Undefined \<and>
              previousMACD \<noteq> Undefined \<and> previousSignal \<noteq> Undefined \<and>
              currentHistogram \<noteq> Undefined \<and> previousHistogram \<noteq> Undefined \<and>
              \<not> isNaN currentMACD \<and> \<not> isNaN currentSignal then
             if js_gt currentMACD currentSignal \<and> js_le previousMACD previousSignal then
               add_score (w_macd CONFIG_weights * (7 / 10))
                 (push \<lparr>name = N_MACD, display = L_MacdCrossUp, signal = Buy,
                        weight = w_macd CONFIG_weights * (7 / 10)\<rparr> a)
             else if js_lt currentMACD currentSignal \<and> js_ge previousMACD previousSignal then
               sub_score (w_macd CONFIG_weights * (7 / 10))
                 (push \<lparr>name = N_MACD, display = L_MacdCrossDown, signal = Sell,
                        weight = w_macd CONFIG_weights * (7 / 10)\<rparr> a)
             else if js_gt currentHistogram (Number (Fin 0))
                \<and> js_le previousHistogram (Number (Fin 0)) then
               add_score (w_macd CONFIG_weights * (3 / 10))
                 (push \<lparr>name = N_MACD, display = L_HistogramUp, signal = Buy,
                        weight = w_macd CONFIG_weights * (3 / 10)\<rparr> a)
             else if js_lt currentHistogram (Number (Fin 0))
                \<and> js_ge previousHistogram (Number (Fin 0)) then
               sub_score (w_macd CONFIG_weights * (3 / 10))
                 (push \<lparr>name = N_MACD, display = L_HistogramDown, signal = Sell,
                        weight = w_macd CONFIG_weights * (3 / 10)\<rparr> a)
             else push \<lparr>name = N_MACD, display = L_MacdNeutral, signal = Neutral, weight = 0\<rparr> a
           else push \<lparr>name = N_MACD, display = L_PreviousInvalid, signal = Neutral, weight = 0\<rparr> a
      else push \<lparr>name = N_MACD, display = L_Insufficient, signal = Neutral, weight = 0\<rparr> a)"

text \<open>5. Volume analysis (lines 316-334).\<close>

definition volume_rule :: "indicators \<Rightarrow> jsval \<Rightarrow> jsval \<Rightarrow> analysis \<Rightarrow> analysis" where
  "volume_rule ind currentPrice previousPrice a =
     (if opt_current (volumeSma20 ind) \<noteq> Undefined \<and>
         currentPrice \<noteq> Undefined \<and> previousPrice \<noteq> Undefined \<and>
         \<not> isNaN currentPrice \<and> \<not> isNaN previousPrice then
        let volumeRatio =
              (if currentVolume ind \<noteq> Undefined
               then num_div (toNumber (currentVolume ind)) (toNumber (opt_current (volumeSma20 ind)))
               else Fin 0);
            priceIncreased = js_gt currentPrice previousPrice;
            priceDecreased = js_lt currentPrice previousPrice
        in if num_lt (Fin (3 / 2)) volumeRatio \<and> priceIncreased then
             add_score (w_volume CONFIG_weights)
               (push \<lparr>name = N_Volume, display = L_VolumeHighUp volumeRatio, signal = Buy,
                      weight = w_volume CONFIG_weights\<rparr> a)
           else if num_lt (Fin (3 / 2)) volumeRatio \<and> priceDecreased then
             sub_score (w_volume CONFIG_weights)
               (push \<lparr>name = N_Volume, display = L_VolumeHighDown volumeRatio, signal = Sell,
                      weight = w_volume CONFIG_weights\<rparr> a)
           else push \<lparr>name = N_Volume, display = L_VolumeNormal volumeRatio, signal = Neutral,
                      weight = 0\<rparr> a
      else push \<lparr>name = N_Volume, display = L_InsufficientOrInvalid, signal = Neutral,
                 weight = 0\<rparr> a)"

text \<open>Determine the final decision (lines 337-351).\<close>

definition buyThreshold :: rat where
  "buyThreshold = maxPossibleScore * threshold_buy"

definition sellThreshold :: rat where
  "sellThreshold = maxPossibleScore * threshold_sell"

definition decide :: "analysis \<Rightarrow> analysis" where
  "decide a =
     (if score a \<ge> buyThreshold then
        let confidenceRange = maxPossibleScore - buyThreshold
        in a\<lparr>decision := Buy,
             confidence := (if confidenceRange > 0
                            then min 1 (round_double ((score a - buyThreshold) / confidenceRange))
                            else 1)\<rparr>
      else if score a \<le> sellThreshold then
        let confidenceRange = maxPossibleScore - \<bar>sellThreshold\<bar>
        in a\<lparr>decision := Sell,
             confidence := (if confidenceRange > 0
                            then min 1 (round_double
                                   ((\<bar>score a\<bar> - \<bar>sellThreshold\<bar>) / confidenceRange))
                            else 1)\<rparr>
      else a\<lparr>decision := Neutral, confidence := 0\<rparr>)"

definition initial_analysis :: analysis where
  "initial_analysis = \<lparr>signals = [], score = 0, decision = Neutral, confidence = 0\<rparr>"

definition scored :: "indicators \<Rightarrow> jsval \<Rightarrow> jsval \<Rightarrow> analysis" where
  "scored ind currentPrice previousPrice =
     volume_rule ind currentPrice previousPrice
       (macd_rule ind (crossover_rule ind (rsi_rule ind
          (trend_rule ind currentPrice initial_analysis))))"

definition performAnalysis :: "indicators \<Rightarrow> jsval \<Rightarrow> jsval \<Rightarrow> analysis" where
  "performAnalysis ind currentPrice previousPrice = decide (scored ind currentPrice previousPrice)"

text \<open>
  What the score is made of: the amount a contribution stands for, and the shape of the
  \<^verbatim>\<open>weight\<close> field, which the source writes as a magnitude beside the direction.
\<close>

definition applied :: "contribution \<Rightarrow> rat" where
  "applied c = (case signal c of Buy \<Rightarrow> weight c | Sell \<Rightarrow> - weight c | Neutral \<Rightarrow> 0)"

definition magnitude_ok :: "contribution \<Rightarrow> bool" where
  "magnitude_ok c = (if signal c = Neutral then weight c = 0 else weight c > 0)"

definition step :: "analysis \<Rightarrow> contribution \<Rightarrow> analysis" where
  "step a c = a\<lparr>signals := signals a @ [c], score := score a + applied c\<rparr>"

definition rule_step :: "rule_name \<Rightarrow> rat \<Rightarrow> analysis \<Rightarrow> analysis \<Rightarrow> bool" where
  "rule_step n b a a' =
     (\<exists>c. a' = step a c \<and> name c = n \<and> magnitude_ok c \<and> weight c \<le> b)"

section \<open>The Indicator Pipeline: \<^verbatim>\<open>calculateIndicators\<close>\<close>

text \<open>
  A kline is a row of raw fields. \<^verbatim>\<open>parseFloat\<close> and the functions of the
  \<^verbatim>\<open>technicalindicators\<close> package are not code of this repository: they are
  parameters. A result of the package that is \<^verbatim>\<open>null\<close> or \<^verbatim>\<open>undefined\<close>
  is \<open>None\<close>, and so is a missing field of a result.
\<close>

type_synonym kline = "string list"

record macd_result =
  r_MACD :: "jsval list option"
  r_signal :: "jsval list option"
  r_histogram :: "jsval list option"

record bb_result =
  r_upper :: "jsval list option"
  r_middle :: "jsval list option"
  r_lower :: "jsval list option"

record stochastic_result =
  r_k :: "jsval list option"
  r_d :: "jsval list option"

record library =
  parseFloat :: "string option \<Rightarrow> jsnum"
  lib_sma :: "jsnum list \<Rightarrow> nat \<Rightarrow> jsval list option"
  lib_rsi :: "jsnum list \<Rightarrow> nat \<Rightarrow> jsval list option"
  lib_macd :: "jsnum list \<Rightarrow> nat \<Rightarrow> nat \<Rightarrow> nat \<Rightarrow> macd_result option"
  lib_bollingerbands :: "jsnum list \<Rightarrow> nat \<Rightarrow> nat \<Rightarrow> bb_result option"
  lib_stochastic :: "jsnum list \<Rightarrow> jsnum list \<Rightarrow> jsnum list \<Rightarrow> nat \<Rightarrow> nat
     \<Rightarrow> stochastic_result option"

text \<open>\<^verbatim>\<open>parseFloat(k[i])\<close>; \<^verbatim>\<open>k[i]\<close> is \<^verbatim>\<open>undefined\<close> past the end of the row.\<close>

definition field :: "library \<Rightarrow> kline \<Rightarrow> nat \<Rightarrow> jsnum" where
  "field lib k i = parseFloat lib (if i < length k then Some (k ! i) else None)"

text \<open>\<^verbatim>\<open>xs.length > 0 ? xs[xs.length - 1] : undefined\<close>\<close>

definition last_or_undefined :: "jsval list \<Rightarrow> jsval" where
  "last_or_undefined xs = (if length xs > 0 then elem_at xs (int (length xs) - 1) else Undefined)"

text \<open>\<^verbatim>\<open>r.xs?.length > 0 ? r.xs[r.xs.length - 1] : undefined\<close>\<close>

definition opt_last :: "jsval list option \<Rightarrow> jsval" where
  "opt_last xs = (if length_gt (opt_length xs) 0 then last_or_undefined (opt_array xs)
                  else Undefined)"

definition series_of :: "jsval list \<Rightarrow> series" where
  "series_of xs = \<lparr>series_values = xs, current = last_or_undefined xs\<rparr>"

text \<open>The object \<^verbatim>\<open>{}\<close> of an indicator that was not computed.\<close>

definition empty_macd :: macd_entry where
  "empty_macd = \<lparr>MACD = None, macd_signal = None, histogram = None,
     currentMACD = Undefined, currentSignal = Undefined, currentHistogram = Undefined\<rparr>"

definition empty_bb :: bb_entry where
  "empty_bb = \<lparr>upper = None, middle = None, lower = None,
     currentUpper = Undefined, currentMiddle = Undefined, currentLower = Undefined\<rparr>"

definition empty_stochastic :: stochastic_entry where
  "empty_stochastic = \<lparr>stoch_k = None, stoch_d = None, currentK = Undefined,
     currentD = Undefined\<rparr>"

definition macd_entry_of :: "macd_result \<Rightarrow> macd_entry" where
  "macd_entry_of r = \<lparr>MACD = Some (opt_array (r_MACD r)),
     macd_signal = Some (opt_array (r_signal r)),
     histogram = Some (opt_array (r_histogram r)),
     currentMACD = opt_last (r_MACD r), currentSignal = opt_last (r_signal r),
     currentHistogram = opt_last (r_histogram r)\<rparr>"

definition bb_entry_of :: "bb_result \<Rightarrow> bb_entry" where
  "bb_entry_of r = \<lparr>upper = Some (opt_array (r_upper r)),
     middle = Some (opt_array (r_middle r)),
     lower = Some (opt_array (r_lower r)),
     currentUpper = opt_last (r_upper r), currentMiddle = opt_last (r_middle r),
     currentLower = opt_last (r_lower r)\<rparr>"

definition stochastic_entry_of :: "stochastic_result \<Rightarrow> stochastic_entry" where
  "stochastic_entry_of r = \<lparr>stoch_k = Some (opt_array (r_k r)),
     stoch_d = Some (opt_array (r_d r)),
     currentK = opt_last (r_k r), currentD = opt_last (r_d r)\<rparr>"

definition calculateIndicators :: "library \<Rightarrow> kline list \<Rightarrow> indicators" where
  "calculateIndicators lib klines =
     (let closePrices = map (\<lambda>k. field lib k 4) klines;
          volumes = map (\<lambda>k. field lib k 5) klines;
          highPrices = map (\<lambda>k. field lib k 2) klines;
          lowPrices = map (\<lambda>k. field lib k 3) klines;
          i_sma20 = (if length closePrices \<ge> 20 then opt_array (lib_sma lib closePrices 20) else []);
          i_sma50 = (if length closePrices \<ge> 50 then opt_array (lib_sma lib closePrices 50) else []);
          i_sma200 = (if length closePrices \<ge> 200 then opt_array (lib_sma lib closePrices 200)
                      else []);
          i_rsi = (if length closePrices \<ge> 14 then opt_array (lib_rsi lib closePrices 14) else []);
          i_macd = (if length closePrices \<ge> 34 then lib_macd lib closePrices 12 26 9 else None);
          i_bollingerbands = (if length closePrices \<ge> 20
                              then lib_bollingerbands lib closePrices 20 2 else None);
          i_stochastic = (if length highPrices \<ge> 18 \<and> length lowPrices \<ge> 18
                             \<and> length closePrices \<ge> 18
                          then lib_stochastic lib highPrices lowPrices closePrices 14 3 else None);
          i_volumeSma20 = (if length volumes \<ge> 20 then opt_array (lib_sma lib volumes 20) else [])
      in \<lparr>sma20 = Some (series_of i_sma20),
          sma50 = Some (series_of i_sma50),
          sma200 = Some (series_of i_sma200),
          rsi = Some (series_of i_rsi),
          macd = Some (case i_macd of Some r \<Rightarrow> macd_entry_of r | None \<Rightarrow> empty_macd),
          bollingerbands = Some (case i_bollingerbands of Some r \<Rightarrow> bb_entry_of r
                                 | None \<Rightarrow> empty_bb),
          stochastic = Some (case i_stochastic of Some r \<Rightarrow> stochastic_entry_of r
                             | None \<Rightarrow> empty_stochastic),
          volumeSma20 = Some (series_of i_volumeSma20),
          currentVolume = (if length volumes > 0 then Number (volumes ! (length volumes - 1))
                           else Undefined)\<rparr>)"

section \<open>The Series Fetcher of \<^verbatim>\<open>src/src/jj.js\<close>: \<^verbatim>\<open>fetchKlines\<close>\<close>

text \<open>
  The network is a parameter: what \<^verbatim>\<open>fetch(url)\<close> answers. The promise rejects
  (\<open>NetworkError\<close>) or resolves to a response with its \<^verbatim>\<open>ok\<close> flag and its body;
  the body is \<open>None\<close> when \<^verbatim>\<open>response.json()\<close> rejects, and otherwise the decoded
  sequence of klines (the payload shape of the market data API: other JSON values are
  outside the model). The clock is read twice: before the rate-limit test and after a
  successful response.
\<close>

datatype response = NetworkError | Http bool "kline list option"

text \<open>
  The source throws \<^verbatim>\<open>Error\<close> objects that differ by their message; each message is
  one constructor. \<open>InsufficientData n\<close> is the message of \<^verbatim>\<open>analyzeMarket\<close> that
  reports \<open>n\<close> fetched candles against the required minimum; \<open>DataUnavailable\<close> is
  the message of the failover fetcher when every endpoint was tried.
\<close>

datatype error =
    FetchRejected
  | BadStatus
  | BadBody
  | InsufficientData nat
  | PriceProcessingFailed
  | DataUnavailable

record fetcher_state =
  cachedData :: "string \<Rightarrow> kline list option"
  lastRequestTime :: int

record environment =
  fetch :: "string \<Rightarrow> response"
  now_before :: int
  now_after :: int

text \<open>
  What one call did: its result, the state it leaves, the URLs it requested (in order)
  and the rate-limit delay it waited for, if any.
\<close>

record fetch_result =
  outcome :: "error + kline list"
  state_after :: fetcher_state
  requested :: "string list"
  waited :: "int option"

text \<open>Decimal digits of a non-negative integer, as \<^verbatim>\<open>`${limit}`\<close> prints it.\<close>

fun string_of_nat :: "nat \<Rightarrow> string" where
  "string_of_nat n =
     (if n < 10 then [char_of (48 + n)]
      else string_of_nat (n div 10) @ [char_of (48 + n mod 10)])"

declare string_of_nat.simps [simp del]

definition cacheKey :: "string \<Rightarrow> string \<Rightarrow> nat \<Rightarrow> string" where
  "cacheKey symbol interval limit = symbol @ ''-'' @ interval @ ''-'' @ string_of_nat limit"

definition baseUrl :: string where
  "baseUrl = ''https://api.binance.com/api/v3/klines''"

definition apiUrl :: "string \<Rightarrow> string \<Rightarrow> nat \<Rightarrow> string" where
  "apiUrl symbol interval limit =
     baseUrl @ ''?symbol='' @ symbol @ ''&interval='' @ interval @ ''&limit='' @ string_of_nat limit"

definition fetchKlines :: "environment \<Rightarrow> fetcher_state \<Rightarrow> string \<Rightarrow> string \<Rightarrow> nat \<Rightarrow> fetch_result" where
  "fetchKlines env st symbol interval limit =
     (case cachedData st (cacheKey symbol interval limit) of
        Some cached \<Rightarrow>
          \<lparr>outcome = Inr cached, state_after = st, requested = [], waited = None\<rparr>
      | None \<Rightarrow>
          let timeSinceLastRequest = now_before env - lastRequestTime st;
              delay = (if timeSinceLastRequest < rateLimit
                       then Some (rateLimit - timeSinceLastRequest) else None);
              url = apiUrl symbol interval limit
          in case fetch env url of
               NetworkError \<Rightarrow>
                 \<lparr>outcome = Inl FetchRejected, state_after = st, requested = [url],
                  waited = delay\<rparr>
             | Http ok body \<Rightarrow>
                 if \<not> ok then
                   \<lparr>outcome = Inl BadStatus, state_after = st, requested = [url],
                    waited = delay\<rparr>
                 else (case body of
                     None \<Rightarrow>
                       \<lparr>outcome = Inl BadBody, state_after = st, requested = [url],
                        waited = delay\<rparr>
                   | Some data \<Rightarrow>
                       \<lparr>outcome = Inr data,
                        state_after = st\<lparr>cachedData :=
                            (cachedData st)(cacheKey symbol interval limit \<mapsto> data),
                          lastRequestTime := now_after env\<rparr>,
                        requested = [url], waited = delay\<rparr>))"

text \<open>A series of calls, each on the state the one before left.\<close>

fun run_calls :: "fetcher_state \<Rightarrow> (environment \<times> string \<times> string \<times> nat) list \<Rightarrow> fetcher_state" where
  "run_calls st [] = st"
| "run_calls st ((env, symbol, interval, limit) # calls) =
     run_calls (state_after (fetchKlines env st symbol interval limit)) calls"

section \<open>The analysis run: \<^verbatim>\<open>analyzeMarket\<close>\<close>



section \<open>The failover fetcher of \<^verbatim>\<open>src/unnamed/part_000\<close>: \<^verbatim>\<open>fetchKlines\<close>\<close>

definition endpoints :: "string list" where
  "endpoints = [''https://api.binance.com'', ''https://api1.binance.com'',
     ''https://api2.binance.com'', ''https://api3.binance.com'']"

definition endpoint_url :: "string \<Rightarrow> string \<Rightarrow> nat \<Rightarrow> string \<Rightarrow> string" where
  "endpoint_url symbol interval limit endpoint =
     endpoint @ ''/api/v3/klines?symbol='' @ symbol @ ''&interval='' @ interval
       @ ''&limit='' @ string_of_nat limit"

text \<open>
  One turn of the loop: the payload it returns, or \<open>None\<close> when the turn falls through
  to the next endpoint (rejected request, status not ok, body that does not decode, or
  fewer than 50 klines).
\<close>

definition attempt :: "response \<Rightarrow> kline list option" where
  "attempt r =
     (case r of
        NetworkError \<Rightarrow> None
      | Http ok body \<Rightarrow>
          if ok then
            (case body of
               None \<Rightarrow> None
             | Some data \<Rightarrow> if length data \<ge> 50 then Some data else None)
          else None)"

text \<open>The loop over the endpoints, with the URLs requested so far in order.\<close>

fun try_endpoints ::
    "(string \<Rightarrow> response) \<Rightarrow> string \<Rightarrow> string \<Rightarrow> nat \<Rightarrow> string list \<Rightarrow> (error + kline list) \<times> string list" where
  "try_endpoints net symbol interval limit [] = (Inl DataUnavailable, [])"
| "try_endpoints net symbol interval limit (endpoint # rest) =
     (let url = endpoint_url symbol interval limit endpoint
      in case attempt (net url) of
           Some data \<Rightarrow> (Inr data, [url])
         | None \<Rightarrow>
             (case try_endpoints net symbol interval limit rest of
                (r, urls) \<Rightarrow> (r, url # urls)))"

definition fetchKlines_failover ::
    "(string \<Rightarrow> response) \<Rightarrow> string \<Rightarrow> string \<Rightarrow> nat \<Rightarrow> (error + kline list) \<times> string list" where
  "fetchKlines_failover net symbol interval limit =
     try_endpoints net symbol interval limit endpoints"

section \<open>Concrete inputs\<close>

definition num :: "rat \<Rightarrow> jsval" where
  "num r = Number (Fin r)"

definition single :: "rat \<Rightarrow> series option" where
  "single r = Some \<lparr>series_values = [num r], current = num r\<rparr>"

definition pair :: "rat \<Rightarrow> rat \<Rightarrow> series option" where
  "pair r r' = Some \<lparr>series_values = [num r, num r'], current = num r'\<rparr>"

text \<open>The bundle of a run without any history: nothing was computed.\<close>

definition no_data :: indicators where
  "no_data = \<lparr>sma20 = Some \<lparr>series_values = [], current = Undefined\<rparr>,
     sma50 = Some \<lparr>series_values = [], current = Undefined\<rparr>,
     sma200 = Some \<lparr>series_values = [], current = Undefined\<rparr>,
     rsi = Some \<lparr>series_values = [], current = Undefined\<rparr>,
     macd = Some empty_macd, bollingerbands = Some empty_bb,
     stochastic = Some empty_stochastic,
     volumeSma20 = Some \<lparr>series_values = [], current = Undefined\<rparr>,
     currentVolume = Undefined\<rparr>"

text \<open>An uptrend with an oversold RSI, at price 3: two rules vote buy.\<close>

definition uptrend_oversold :: indicators where
  "uptrend_oversold = no_data\<lparr>sma50 := single 2, sma200 := single 1, rsi := single 25\<rparr>"

text \<open>A downtrend, at price 1/2: one rule votes sell.\<close>

definition downtrend :: indicators where
  "downtrend = no_data\<lparr>sma50 := single 1, sma200 := single 2\<rparr>"

text \<open>Every rule votes buy with its largest weight, at price 5 after 4.\<close>

definition all_buy :: indicators where
  "all_buy = \<lparr>sma20 = pair 1 3, sma50 = pair 1 2, sma200 = single 1, rsi = single 25,
     macd = Some \<lparr>MACD = Some [num 0, num 2], macd_signal = Some [num 1, num 1],
       histogram = Some [num (-1), num 1], currentMACD = num 2, currentSignal = num 1,
       currentHistogram = num 1\<rparr>,
     bollingerbands = Some empty_bb, stochastic = Some empty_stochastic,
     volumeSma20 = single 2, currentVolume = num 4\<rparr>"

text \<open>
  Two values in every series of the crossover and MACD rules, but no value before the
  current SMA 20 and no current MACD.
\<close>

definition stale_previous :: indicators where
  "stale_previous = no_data\<lparr>
     sma20 := Some \<lparr>series_values = [Undefined, num 3], current = num 3\<rparr>,
     sma50 := pair 1 2,
     macd := Some \<lparr>MACD = Some [num 0, num 2], macd_signal = Some [num 1, num 1],
       histogram = Some [num (-1), num 1], currentMACD = Undefined, currentSignal = num 1,
       currentHistogram = num 1\<rparr>\<rparr>"

text \<open>A volume average without a current volume.\<close>

definition volume_missing :: indicators where
  "volume_missing = no_data\<lparr>volumeSma20 := single 2\<rparr>"

text \<open>A package whose stochastic always answers, and a series of 17 klines.\<close>

definition ready_library :: library where
  "ready_library = \<lparr>parseFloat = (\<lambda>_. Fin 1),
     lib_sma = (\<lambda>_ _. None), lib_rsi = (\<lambda>_ _. None),
     lib_macd = (\<lambda>_ _ _ _. None), lib_bollingerbands = (\<lambda>_ _ _. None),
     lib_stochastic = (\<lambda>_ _ _ _ _. Some \<lparr>r_k = Some [num 50], r_d = Some [num 50]\<rparr>)\<rparr>"

definition klines17 :: "kline list" where
  "klines17 = replicate 17 [''0'', ''1'', ''1'', ''1'', ''1'', ''1'']"

definition klines18 :: "kline list" where
  "klines18 = replicate 18 [''0'', ''1'', ''1'', ''1'', ''1'', ''1'']"

text \<open>A network that answers every request with three klines, and a fresh fetcher.\<close>

definition klines3 :: "kline list" where
  "klines3 = replicate 3 [''0'', ''1'', ''1'', ''1'', ''1'', ''1'']"

definition short_network :: environment where
  "short_network = \<lparr>fetch = (\<lambda>_. Http True (Some klines3)), now_before = 5000,
     now_after = 5200\<rparr>"

definition dead_network :: environment where
  "dead_network = \<lparr>fetch = (\<lambda>_. NetworkError), now_before = 9000, now_after = 9100\<rparr>"

definition fresh :: fetcher_state where
  "fresh = \<lparr>cachedData = Map.empty, lastRequestTime = 0\<rparr>"

text \<open>
  A network on which only the mirror \<^verbatim>\<open>api2\<close> answers (the twelfth character of its
  URLs is the digit 2), with 50 klines.
\<close>

definition klines50 :: "kline list" where
  "klines50 = replicate 50 [''0'', ''1'', ''1'', ''1'', ''1'', ''1'']"

definition only_api2 :: "string \<Rightarrow> response" where
  "only_api2 url = (if url ! 11 = CHR ''2'' then Http True (Some klines50) else NetworkError)"

section \<open>Properties of the rounding\<close>

lemma rne_mono: "x \<le> y \<Longrightarrow> rne x \<le> rne y"
proof -
  assume xy: "x \<le> y"
  have fl: "\<lfloor>x\<rfloor> \<le> \<lfloor>y\<rfloor>" using xy by (rule floor_mono)
  have bx: "rne x \<le> \<lfloor>x\<rfloor> + 1" and by': "\<lfloor>y\<rfloor> \<le> rne y"
    by (simp_all add: rne_def Let_def)
  show ?thesis
  proof (cases "\<lfloor>x\<rfloor> < \<lfloor>y\<rfloor>")
    case True
    then show ?thesis using bx by' by linarith
  next
    case False
    then have eq: "\<lfloor>x\<rfloor> = \<lfloor>y\<rfloor>" using fl by simp
    then have "x - of_int \<lfloor>x\<rfloor> \<le> y - of_int \<lfloor>y\<rfloor>" using xy by simp
    then show ?thesis unfolding rne_def Let_def eq by auto
  qed
qed

lemma rne_of_int [simp]: "rne (of_int n) = n"
  by (simp add: rne_def)

lemma rne_le: "x \<le> of_int n \<Longrightarrow> rne x \<le> n"
  using rne_mono [of x "of_int n"] by simp

lemma rne_ge: "of_int n \<le> x \<Longrightarrow> n \<le> rne x"
  using rne_mono [of "of_int n" x] by simp

lemma binade_bounds:
  assumes "0 < a"
  shows "2 powi (binade a) \<le> a" and "a < 2 powi (binade a + 1)"
proof -
  show "2 powi (binade a) \<le> a"
  proof (cases "1 \<le> a")
    case True
    then have p: "0 < \<lfloor>a\<rfloor>" by linarith
    have "1 \<le> bitlen \<lfloor>a\<rfloor>" using p bitlen_eq_zero_iff [of "\<lfloor>a\<rfloor>"] bitlen_nonneg [of "\<lfloor>a\<rfloor>"] by linarith
    then have "(2::rat) powi (bitlen \<lfloor>a\<rfloor> - 1) = 2 ^ nat (bitlen \<lfloor>a\<rfloor> - 1)"
      by (simp add: power_int_nonneg_exp)
    also have "\<dots> = of_int (2 ^ nat (bitlen \<lfloor>a\<rfloor> - 1))" by simp
    also have "\<dots> \<le> of_int \<lfloor>a\<rfloor>"
      using bitlen_bounds [OF p] by (intro of_int_le_iff [THEN iffD2]) simp
    also have "\<dots> \<le> a" by simp
    finally show ?thesis using True by (simp add: binade_def)
  next
    case False
    define m where "m = \<lceil>1 / a\<rceil> - 1"
    have a1: "1 < 1 / a" using False assms by simp
    then have p: "0 < m" unfolding m_def by linarith
    have "1 / a \<le> of_int (m + 1)" unfolding m_def by simp
    also have "of_int (m + 1) \<le> (of_int (2 ^ nat (bitlen m)) :: rat)"
      using bitlen_bounds [OF p] by (intro of_int_le_iff [THEN iffD2]) linarith
    also have "\<dots> = 2 powi (bitlen m)"
      using bitlen_nonneg [of m] by (simp add: power_int_nonneg_exp)
    finally have "1 / a \<le> 2 powi (bitlen m)" .
    then have "1 / (2 powi (bitlen m)) \<le> a"
      using assms by (simp add: field_simps)
    then show ?thesis using False by (simp add: binade_def m_def power_int_minus_divide)
  qed
  show "a < 2 powi (binade a + 1)"
  proof (cases "1 \<le> a")
    case True
    then have p: "0 < \<lfloor>a\<rfloor>" by linarith
    have b1: "1 \<le> bitlen \<lfloor>a\<rfloor>" using p bitlen_eq_zero_iff [of "\<lfloor>a\<rfloor>"] bitlen_nonneg [of "\<lfloor>a\<rfloor>"] by linarith
    have "\<lfloor>a\<rfloor> + 1 \<le> 2 ^ nat (bitlen \<lfloor>a\<rfloor>)" using bitlen_bounds [OF p] by linarith
    then have "(of_int (\<lfloor>a\<rfloor> + 1) :: rat) \<le> of_int (2 ^ nat (bitlen \<lfloor>a\<rfloor>))"
      by (rule of_int_le_iff [THEN iffD2])
    moreover have "a < of_int (\<lfloor>a\<rfloor> + 1)" by linarith
    ultimately have "a < 2 ^ nat (bitlen \<lfloor>a\<rfloor>)" by simp
    also have "\<dots> = 2 powi (bitlen \<lfloor>a\<rfloor>)" using b1 by (simp add: power_int_nonneg_exp)
    finally show ?thesis using True by (simp add: binade_def)
  next
    case False
    define m where "m = \<lceil>1 / a\<rceil> - 1"
    have a1: "1 < 1 / a" using False assms by simp
    then have p: "0 < m" unfolding m_def by linarith
    have b1: "1 \<le> bitlen m" using p bitlen_eq_zero_iff [of m] bitlen_nonneg [of m] by linarith
    have "(2::rat) powi (bitlen m - 1) = of_int (2 ^ nat (bitlen m - 1))"
      using b1 by (simp add: power_int_nonneg_exp)
    also have "\<dots> \<le> of_int m"
      using bitlen_bounds [OF p] by (intro of_int_le_iff [THEN iffD2]) simp
    also have "\<dots> < 1 / a" unfolding m_def by linarith
    finally have "2 powi (bitlen m - 1) < 1 / a" .
    then have "a < 1 / (2 powi (bitlen m - 1))"
      using assms by (simp add: field_simps)
    also have "\<dots> = 2 powi (- bitlen m + 1)"
      by (simp add: power_int_minus_divide [symmetric])
    finally show ?thesis using False by (simp add: binade_def m_def)
  qed
qed

lemma binade_mono:
  assumes "0 < x" "x \<le> y"
  shows "binade x \<le> binade y"
proof (rule ccontr)
  assume "\<not> binade x \<le> binade y"
  then have "binade y + 1 \<le> binade x" by simp
  then have "(2::rat) powi (binade y + 1) \<le> 2 powi (binade x)"
    by (intro power_int_increasing) simp_all
  also have "\<dots> \<le> x" using assms(1) by (rule binade_bounds(1))
  also have "\<dots> \<le> y" by (rule assms(2))
  also have "\<dots> < 2 powi (binade y + 1)" using assms by (intro binade_bounds(2)) simp
  finally show False by simp
qed

lemma round_double_nonneg: "0 \<le> x \<Longrightarrow> 0 \<le> round_double x"
proof -
  assume x: "0 \<le> x"
  have "0 \<le> rne (\<bar>x\<bar> / u)" if "0 < u" for u :: rat
    using that by (intro rne_ge) simp
  then show ?thesis
    using x by (simp add: round_double_def Let_def sgn_if)
qed

lemma round_double_pos:
  assumes "0 < x"
  shows "round_double x
    = of_int (rne (x / 2 powi (max (binade x) (- 1022) - 52))) * 2 powi (max (binade x) (- 1022) - 52)"
  using assms by (simp add: round_double_def Let_def)

lemma round_double_mono:
  assumes "0 \<le> x" "x \<le> y"
  shows "round_double x \<le> round_double y"
proof (cases "x = 0")
  case True
  then show ?thesis using assms round_double_nonneg [of y] by (simp add: round_double_def)
next
  case False
  then have x: "0 < x" and y: "0 < y" using assms by simp_all
  define ex where "ex = max (binade x) (- 1022)"
  define ey where "ey = max (binade y) (- 1022)"
  have rx: "round_double x = of_int (rne (x / 2 powi (ex - 52))) * 2 powi (ex - 52)"
    unfolding ex_def by (rule round_double_pos [OF x])
  have ry: "round_double y = of_int (rne (y / 2 powi (ey - 52))) * 2 powi (ey - 52)"
    unfolding ey_def by (rule round_double_pos [OF y])
  have le: "ex \<le> ey" unfolding ex_def ey_def using binade_mono [OF x assms(2)] by simp
  have upos: "(0::rat) < 2 powi k" for k :: int by (simp add: zero_less_power_int)
  show ?thesis
  proof (cases "ex = ey")
    case True
    have "x / 2 powi (ey - 52) \<le> y / 2 powi (ey - 52)"
      using assms(2) upos [of "ey - 52"] by (simp add: divide_right_mono)
    then have "rne (x / 2 powi (ey - 52)) \<le> rne (y / 2 powi (ey - 52))" by (rule rne_mono)
    then show ?thesis unfolding rx ry True
      using upos [of "ey - 52"] by (simp add: mult_right_mono)
  next
    case False
    then have lt: "ex < ey" using le by simp
    then have eyb: "ey = binade y" unfolding ey_def ex_def by linarith
    have "x < 2 powi (binade x + 1)" using x by (rule binade_bounds(2))
    also have "\<dots> \<le> 2 powi (ex + 1)"
      unfolding ex_def by (intro power_int_increasing) simp_all
    finally have xb: "x < 2 powi (ex + 1)" .
    have split_x: "(2::rat) powi (ex + 1) = of_int (2 ^ 53) * 2 powi (ex - 52)"
    proof -
      have "ex + 1 = 53 + (ex - 52)" by simp
      then have "(2::rat) powi (ex + 1) = 2 powi (53 + (ex - 52))" by (rule arg_cong)
      also have "\<dots> = 2 powi 53 * 2 powi (ex - 52)" by (subst power_int_add) simp_all
      finally show ?thesis by simp
    qed
    have "x / 2 powi (ex - 52) \<le> of_int (2 ^ 53)"
      using xb upos [of "ex - 52"] unfolding split_x by (simp add: field_simps)
    then have "rne (x / 2 powi (ex - 52)) \<le> 2 ^ 53" by (rule rne_le)
    then have "(of_int (rne (x / 2 powi (ex - 52))) :: rat) \<le> of_int (2 ^ 53)"
      by (rule of_int_le_iff [THEN iffD2])
    then have "round_double x \<le> of_int (2 ^ 53) * 2 powi (ex - 52)"
      unfolding rx using upos [of "ex - 52"] by (intro mult_right_mono) simp_all
    also have "\<dots> = 2 powi (ex + 1)" by (rule split_x [symmetric])
    also have "\<dots> \<le> 2 powi ey" using lt by (intro power_int_increasing) simp_all
    finally have one: "round_double x \<le> 2 powi ey" .
    have yb: "2 powi ey \<le> y" unfolding eyb using y by (rule binade_bounds(1))
    have split_y: "(2::rat) powi ey = of_int (2 ^ 52) * 2 powi (ey - 52)"
    proof -
      have "ey = 52 + (ey - 52)" by simp
      then have "(2::rat) powi ey = 2 powi (52 + (ey - 52))" by (rule arg_cong)
      also have "\<dots> = 2 powi 52 * 2 powi (ey - 52)" by (subst power_int_add) simp_all
      finally show ?thesis by simp
    qed
    have "of_int (2 ^ 52) \<le> y / 2 powi (ey - 52)"
      using yb upos [of "ey - 52"] unfolding split_y by (simp add: field_simps)
    then have "2 ^ 52 \<le> rne (y / 2 powi (ey - 52))" by (rule rne_ge)
    then have "(of_int (2 ^ 52) :: rat) \<le> of_int (rne (y / 2 powi (ey - 52)))"
      by (rule of_int_le_iff [THEN iffD2])
    then have "of_int (2 ^ 52) * 2 powi (ey - 52) \<le> round_double y"
      unfolding ry using upos [of "ey - 52"] by (intro mult_right_mono) simp_all
    then have two: "2 powi ey \<le> round_double y" unfolding split_y .
    show ?thesis using one two by linarith
  qed
qed

lemma round_double_71_120:
  "round_double (71 / 120) = 5329259559055087 / 9007199254740992"
  by code_simp

lemma round_double_2: "round_double 2 = 2"
  by code_simp

section \<open>Properties of the Decision Engine\<close>

lemma rule_step_buy:
  "0 < w \<Longrightarrow> w \<le> b \<Longrightarrow>
   rule_step n b a (add_score w (push \<lparr>name = n, display = d, signal = Buy, weight = w\<rparr> a))"
  unfolding rule_step_def
  by (rule exI [of _ "\<lparr>name = n, display = d, signal = Buy, weight = w\<rparr>"])
     (simp add: step_def applied_def magnitude_ok_def add_score_def push_def)

lemma rule_step_sell:
  "0 < w \<Longrightarrow> w \<le> b \<Longrightarrow>
   rule_step n b a (sub_score w (push \<lparr>name = n, display = d, signal = Sell, weight = w\<rparr> a))"
  unfolding rule_step_def
  by (rule exI [of _ "\<lparr>name = n, display = d, signal = Sell, weight = w\<rparr>"])
     (simp add: step_def applied_def magnitude_ok_def sub_score_def push_def)

lemma rule_step_neutral:
  "0 \<le> b \<Longrightarrow>
   rule_step n b a (push \<lparr>name = n, display = d, signal = Neutral, weight = 0\<rparr> a)"
  unfolding rule_step_def
  by (rule exI [of _ "\<lparr>name = n, display = d, signal = Neutral, weight = 0\<rparr>"])
     (simp add: step_def applied_def magnitude_ok_def push_def)

lemmas rule_step_intros = rule_step_buy rule_step_sell rule_step_neutral

lemma trend_rule_step: "rule_step N_Trend 30 a (trend_rule ind p a)"
  unfolding trend_rule_def Let_def by (simp add: rule_step_intros CONFIG_weights_def)

lemma rsi_rule_step: "rule_step N_RSI 20 a (rsi_rule ind a)"
  unfolding rsi_rule_def by (simp add: rule_step_intros CONFIG_weights_def)

lemma crossover_rule_step: "rule_step N_Crossover 20 a (crossover_rule ind a)"
  unfolding crossover_rule_def Let_def by (simp add: rule_step_intros CONFIG_weights_def)

lemma macd_rule_step: "rule_step N_MACD (21 / 2) a (macd_rule ind a)"
  unfolding macd_rule_def Let_def by (simp add: rule_step_intros CONFIG_weights_def)

lemma volume_rule_step: "rule_step N_Volume 15 a (volume_rule ind p q a)"
  unfolding volume_rule_def Let_def by (simp add: rule_step_intros CONFIG_weights_def)

text \<open>The contribution a rule appends does not depend on the analysis it is appended to.\<close>

lemmas push_simps = push_def add_score_def sub_score_def

lemma trend_rule_signals:
  "signals (trend_rule ind p a) = signals a @ [last (signals (trend_rule ind p initial_analysis))]"
  unfolding trend_rule_def Let_def by (simp add: push_simps)

lemma rsi_rule_signals:
  "signals (rsi_rule ind a) = signals a @ [last (signals (rsi_rule ind initial_analysis))]"
  unfolding rsi_rule_def by (simp add: push_simps)

lemma crossover_rule_signals:
  "signals (crossover_rule ind a) = signals a @ [last (signals (crossover_rule ind initial_analysis))]"
  unfolding crossover_rule_def Let_def by (simp add: push_simps)

lemma macd_rule_signals:
  "signals (macd_rule ind a) = signals a @ [last (signals (macd_rule ind initial_analysis))]"
  unfolding macd_rule_def Let_def by (simp add: push_simps)

lemma volume_rule_signals:
  "signals (volume_rule ind p q a) = signals a @ [last (signals (volume_rule ind p q initial_analysis))]"
  unfolding volume_rule_def Let_def by (simp add: push_simps)

lemma applied_bound:
  "magnitude_ok c \<Longrightarrow> weight c \<le> b \<Longrightarrow> \<bar>applied c\<bar> \<le> b"
  unfolding magnitude_ok_def applied_def by (cases "signal c") (auto split: if_splits)

lemma signals_decide: "signals (decide a) = signals a"
  unfolding decide_def Let_def by simp

lemma score_decide: "score (decide a) = score a"
  unfolding decide_def Let_def by simp

lemma maxPossibleScore_value: "maxPossibleScore = 120"
  by (simp add: maxPossibleScore_def Object_values_def CONFIG_weights_def)

lemma buyThreshold_value: "buyThreshold = 60"
  by (simp add: buyThreshold_def maxPossibleScore_value threshold_buy_def)

lemma sellThreshold_value: "sellThreshold = - 60"
  by (simp add: sellThreshold_def maxPossibleScore_value threshold_sell_def)

lemma scored_signals:
  "signals (scored ind p q) =
     [last (signals (trend_rule ind p initial_analysis)),
      last (signals (rsi_rule ind initial_analysis)),
      last (signals (crossover_rule ind initial_analysis)),
      last (signals (macd_rule ind initial_analysis)),
      last (signals (volume_rule ind p q initial_analysis))]"
proof -
  have "signals (trend_rule ind p initial_analysis)
          = [last (signals (trend_rule ind p initial_analysis))]"
    using trend_rule_signals [of ind p initial_analysis] by (simp add: initial_analysis_def)
  then show ?thesis
    unfolding scored_def
    by (simp add: volume_rule_signals [of ind p q "macd_rule _ _"]
        macd_rule_signals [of ind "crossover_rule _ _"]
        crossover_rule_signals [of ind "rsi_rule _ _"]
        rsi_rule_signals [of ind "trend_rule _ _ _"])
qed

lemma scored_steps:
  obtains c1 c2 c3 c4 c5 where
    "scored ind p q = step (step (step (step (step initial_analysis c1) c2) c3) c4) c5"
    "name c1 = N_Trend" "name c2 = N_RSI" "name c3 = N_Crossover" "name c4 = N_MACD"
    "name c5 = N_Volume"
    "magnitude_ok c1" "magnitude_ok c2" "magnitude_ok c3" "magnitude_ok c4" "magnitude_ok c5"
    "weight c1 \<le> 30" "weight c2 \<le> 20" "weight c3 \<le> 20" "weight c4 \<le> 21 / 2"
    "weight c5 \<le> 15"
proof -
  define a1 where "a1 = trend_rule ind p initial_analysis"
  define a2 where "a2 = rsi_rule ind a1"
  define a3 where "a3 = crossover_rule ind a2"
  define a4 where "a4 = macd_rule ind a3"
  have "rule_step N_Trend 30 initial_analysis a1" unfolding a1_def by (rule trend_rule_step)
  then obtain c1 where c1: "a1 = step initial_analysis c1" "name c1 = N_Trend"
      "magnitude_ok c1" "weight c1 \<le> 30"
    unfolding rule_step_def by blast
  have "rule_step N_RSI 20 a1 a2" unfolding a2_def by (rule rsi_rule_step)
  then obtain c2 where c2: "a2 = step a1 c2" "name c2 = N_RSI"
      "magnitude_ok c2" "weight c2 \<le> 20"
    unfolding rule_step_def by blast
  have "rule_step N_Crossover 20 a2 a3" unfolding a3_def by (rule crossover_rule_step)
  then obtain c3 where c3: "a3 = step a2 c3" "name c3 = N_Crossover"
      "magnitude_ok c3" "weight c3 \<le> 20"
    unfolding rule_step_def by blast
  have "rule_step N_MACD (21 / 2) a3 a4" unfolding a4_def by (rule macd_rule_step)
  then obtain c4 where c4: "a4 = step a3 c4" "name c4 = N_MACD"
      "magnitude_ok c4" "weight c4 \<le> 21 / 2"
    unfolding rule_step_def by blast
  have "rule_step N_Volume 15 a4 (volume_rule ind p q a4)" by (rule volume_rule_step)
  then obtain c5 where c5: "volume_rule ind p q a4 = step a4 c5" "name c5 = N_Volume"
      "magnitude_ok c5" "weight c5 \<le> 15"
    unfolding rule_step_def by blast
  have "scored ind p q = volume_rule ind p q a4"
    unfolding scored_def a4_def a3_def a2_def a1_def ..
  then have "scored ind p q = step (step (step (step (step initial_analysis c1) c2) c3) c4) c5"
    using c1(1) c2(1) c3(1) c4(1) c5(1) by simp
  then show ?thesis
    using c1(2-) c2(2-) c3(2-) c4(2-) c5(2-) that by blast
qed

lemma scored_score:
  "score (scored ind p q) = sum_list (map applied (signals (scored ind p q)))"
proof -
  obtain c1 c2 c3 c4 c5 where
    "scored ind p q = step (step (step (step (step initial_analysis c1) c2) c3) c4) c5"
    by (rule scored_steps)
  then show ?thesis by (simp add: step_def initial_analysis_def)
qed

lemma scored_magnitudes: "c \<in> set (signals (scored ind p q)) \<Longrightarrow> magnitude_ok c"
proof -
  assume c: "c \<in> set (signals (scored ind p q))"
  obtain c1 c2 c3 c4 c5 where
    "scored ind p q = step (step (step (step (step initial_analysis c1) c2) c3) c4) c5"
    "magnitude_ok c1" "magnitude_ok c2" "magnitude_ok c3" "magnitude_ok c4" "magnitude_ok c5"
    by (rule scored_steps)
  with c show ?thesis by (auto simp: step_def initial_analysis_def)
qed

lemma scored_names:
  "map name (signals (scored ind p q)) = [N_Trend, N_RSI, N_Crossover, N_MACD, N_Volume]"
proof -
  obtain c1 c2 c3 c4 c5 where
    "scored ind p q = step (step (step (step (step initial_analysis c1) c2) c3) c4) c5"
    "name c1 = N_Trend" "name c2 = N_RSI" "name c3 = N_Crossover" "name c4 = N_MACD"
    "name c5 = N_Volume"
    by (rule scored_steps)
  then show ?thesis by (simp add: step_def initial_analysis_def)
qed

lemma scored_bound: "\<bar>score (scored ind p q)\<bar> \<le> 191 / 2"
proof -
  obtain c1 c2 c3 c4 c5 where s:
    "scored ind p q = step (step (step (step (step initial_analysis c1) c2) c3) c4) c5"
    and m: "magnitude_ok c1" "magnitude_ok c2" "magnitude_ok c3" "magnitude_ok c4"
      "magnitude_ok c5"
    and w: "weight c1 \<le> 30" "weight c2 \<le> 20" "weight c3 \<le> 20" "weight c4 \<le> 21 / 2"
      "weight c5 \<le> 15"
    by (rule scored_steps)
  have "\<bar>applied c1\<bar> \<le> 30" "\<bar>applied c2\<bar> \<le> 20" "\<bar>applied c3\<bar> \<le> 20"
    "\<bar>applied c4\<bar> \<le> 21 / 2" "\<bar>applied c5\<bar> \<le> 15"
    using m w by (blast intro: applied_bound)+
  moreover have "score (scored ind p q)
      = applied c1 + applied c2 + applied c3 + applied c4 + applied c5"
    unfolding s by (simp add: step_def initial_analysis_def)
  ultimately show ?thesis by linarith
qed

lemma decide_confidence:
  assumes "\<bar>score a\<bar> \<le> 191 / 2"
  shows "0 \<le> confidence (decide a)"
    and "confidence (decide a) \<le> 5329259559055087 / 9007199254740992"
    and "decision (decide a) = Neutral \<Longrightarrow> confidence (decide a) = 0"
proof -
  have up: "round_double ((s - 60) / 60) \<le> 5329259559055087 / 9007199254740992"
    and lo: "0 \<le> round_double ((s - 60) / 60)"
    if "60 \<le> s" "s \<le> 191 / 2" for s :: rat
  proof -
    have "0 \<le> (s - 60) / 60" and "(s - 60) / 60 \<le> 71 / 120" using that by simp_all
    then show "round_double ((s - 60) / 60) \<le> 5329259559055087 / 9007199254740992"
      and "0 \<le> round_double ((s - 60) / 60)"
      using round_double_mono [of "(s - 60) / 60" "71 / 120"]
        round_double_nonneg [of "(s - 60) / 60"]
      by (simp_all add: round_double_71_120)
  qed
  consider (buy) "60 \<le> score a" | (sell) "\<not> 60 \<le> score a" "score a \<le> - 60"
    | (neutral) "\<not> 60 \<le> score a" "\<not> score a \<le> - 60"
    by blast
  then have "0 \<le> confidence (decide a)
      \<and> confidence (decide a) \<le> 5329259559055087 / 9007199254740992
      \<and> (decision (decide a) = Neutral \<longrightarrow> confidence (decide a) = 0)"
  proof cases
    case buy
    then have "score a \<le> 191 / 2" using assms by linarith
    from up [OF buy this] lo [OF buy this] buy show ?thesis
      unfolding decide_def Let_def
      by (simp add: maxPossibleScore_value buyThreshold_value sellThreshold_value min_def)
  next
    case sell
    then have s: "60 \<le> \<bar>score a\<bar>" "\<bar>score a\<bar> \<le> 191 / 2" using assms by linarith+
    from up [OF s] lo [OF s] sell show ?thesis
      unfolding decide_def Let_def
      by (simp add: maxPossibleScore_value buyThreshold_value sellThreshold_value min_def)
  next
    case neutral
    then show ?thesis
      unfolding decide_def Let_def
      by (simp add: maxPossibleScore_value buyThreshold_value sellThreshold_value)
  qed
  then show "0 \<le> confidence (decide a)"
    and "confidence (decide a) \<le> 5329259559055087 / 9007199254740992"
    and "decision (decide a) = Neutral \<Longrightarrow> confidence (decide a) = 0"
    by blast+
qed

lemma decide_decision:
  "decision (decide a) = (if score a \<ge> 60 then Buy else if score a \<le> - 60 then Sell else Neutral)"
  unfolding decide_def Let_def
  by (simp add: buyThreshold_value sellThreshold_value)


lemmas js_simps = js_gt_def js_lt_def js_le_def js_ge_def num_lt_def num_le_def isNaN_def
  num_def single_def pair_def opt_current_def opt_values_def elem_at_def

lemmas rule_defs = trend_rule_def rsi_rule_def crossover_rule_def macd_rule_def volume_rule_def

lemmas macd_simps = macd_MACD_def macd_signal_of_def macd_histogram_def macd_currentMACD_def
  macd_currentSignal_def opt_length_def length_gt_def opt_array_def empty_macd_def

lemmas eval_simps = scored_def performAnalysis_def initial_analysis_def rule_defs js_simps
  macd_simps push_simps CONFIG_weights_def Let_def num_div_def is_inf_def is_zero_def
  round_double_2 round_double_71_120
  decide_def maxPossibleScore_value buyThreshold_value sellThreshold_value

lemma trend_rule_absent:
  "opt_current (sma50 ind) = Undefined \<or> opt_current (sma200 ind) = Undefined \<Longrightarrow>
   trend_rule ind p a
     = push \<lparr>name = N_Trend, display = L_Insufficient, signal = Neutral, weight = 0\<rparr> a"
  unfolding trend_rule_def by auto

lemma rsi_rule_absent:
  "opt_current (rsi ind) = Undefined \<Longrightarrow>
   rsi_rule ind a
     = push \<lparr>name = N_RSI, display = L_Insufficient, signal = Neutral, weight = 0\<rparr> a"
  unfolding rsi_rule_def by simp

lemma crossover_rule_absent:
  "opt_current (sma20 ind) = Undefined \<or> length (opt_values (sma20 ind)) \<le> 1
   \<or> opt_current (sma50 ind) = Undefined \<or> length (opt_values (sma50 ind)) \<le> 1 \<Longrightarrow>
   crossover_rule ind a
     = push \<lparr>name = N_Crossover, display = L_Insufficient, signal = Neutral, weight = 0\<rparr> a"
  unfolding crossover_rule_def by auto

lemma crossover_rule_invalid:
  assumes "opt_current (sma20 ind) \<noteq> Undefined" "1 < length (opt_values (sma20 ind))"
    "opt_current (sma50 ind) \<noteq> Undefined" "1 < length (opt_values (sma50 ind))"
    and "elem_at (opt_values (sma20 ind)) (int (length (opt_values (sma20 ind))) - 2) = Undefined
      \<or> elem_at (opt_values (sma50 ind)) (int (length (opt_values (sma50 ind))) - 2) = Undefined
      \<or> isNaN (elem_at (opt_values (sma20 ind)) (int (length (opt_values (sma20 ind))) - 2))
      \<or> isNaN (elem_at (opt_values (sma50 ind)) (int (length (opt_values (sma50 ind))) - 2))"
  shows "crossover_rule ind a
     = push \<lparr>name = N_Crossover, display = L_PreviousInvalid, signal = Neutral, weight = 0\<rparr> a"
  using assms unfolding crossover_rule_def Let_def by auto

lemma macd_rule_absent:
  "\<not> length_gt (opt_length (macd_MACD ind)) 1
   \<or> \<not> length_gt (opt_length (macd_signal_of ind)) 1
   \<or> \<not> length_gt (opt_length (macd_histogram ind)) 1 \<Longrightarrow>
   macd_rule ind a
     = push \<lparr>name = N_MACD, display = L_Insufficient, signal = Neutral, weight = 0\<rparr> a"
  unfolding macd_rule_def by auto

lemma macd_rule_invalid:
  assumes "length_gt (opt_length (macd_MACD ind)) 1"
    "length_gt (opt_length (macd_signal_of ind)) 1"
    "length_gt (opt_length (macd_histogram ind)) 1"
    and "macd_currentMACD ind = Undefined \<or> macd_currentSignal ind = Undefined
      \<or> elem_at (opt_array (macd_MACD ind)) (int (length (opt_array (macd_MACD ind))) - 2)
          = Undefined
      \<or> elem_at (opt_array (macd_signal_of ind))
            (int (length (opt_array (macd_signal_of ind))) - 2) = Undefined
      \<or> elem_at (opt_array (macd_histogram ind))
            (int (length (opt_array (macd_histogram ind))) - 1) = Undefined
      \<or> elem_at (opt_array (macd_histogram ind))
            (int (length (opt_array (macd_histogram ind))) - 2) = Undefined
      \<or> isNaN (macd_currentMACD ind) \<or> isNaN (macd_currentSignal ind)"
  shows "macd_rule ind a
     = push \<lparr>name = N_MACD, display = L_PreviousInvalid, signal = Neutral, weight = 0\<rparr> a"
  using assms unfolding macd_rule_def Let_def by auto

lemma volume_rule_absent:
  "opt_current (volumeSma20 ind) = Undefined \<or> p = Undefined \<or> q = Undefined
   \<or> isNaN p \<or> isNaN q \<Longrightarrow>
   volume_rule ind p q a
     = push \<lparr>name = N_Volume, display = L_InsufficientOrInvalid, signal = Neutral,
             weight = 0\<rparr> a"
  unfolding volume_rule_def by auto

lemma volume_rule_no_volume:
  assumes "currentVolume ind = Undefined" "opt_current (volumeSma20 ind) \<noteq> Undefined"
    "p \<noteq> Undefined" "q \<noteq> Undefined" "\<not> isNaN p" "\<not> isNaN q"
  shows "volume_rule ind p q a
     = push \<lparr>name = N_Volume, display = L_VolumeNormal (Fin 0), signal = Neutral,
             weight = 0\<rparr> a"
  using assms unfolding volume_rule_def Let_def by (simp add: num_lt_def)

lemma last_push: "last (signals (push c a)) = c"
  by (simp add: push_def)

lemma performAnalysis_signals:
  "signals (performAnalysis ind p q) =
     [last (signals (trend_rule ind p initial_analysis)),
      last (signals (rsi_rule ind initial_analysis)),
      last (signals (crossover_rule ind initial_analysis)),
      last (signals (macd_rule ind initial_analysis)),
      last (signals (volume_rule ind p q initial_analysis))]"
  unfolding performAnalysis_def by (simp add: signals_decide scored_signals)

lemma performAnalysis_names:
  "map name (signals (performAnalysis ind p q))
     = [N_Trend, N_RSI, N_Crossover, N_MACD, N_Volume]"
  unfolding performAnalysis_def by (simp add: signals_decide scored_names)

text \<open>
  Claim C2. For every bundle and every pair of prices \<^verbatim>\<open>performAnalysis\<close> returns an
  analysis (it is a total function on the bundles of the model) whose contribution list
  has exactly one entry per rule, in the order trend, RSI, crossover, MACD, volume; and
  a rule whose indicator data is absent contributes a neutral entry of weight 0. The data
  of a rule is absent exactly when the guard of the rule in the source fails: a current
  value is absent, a series of the crossover or of the MACD rule has fewer than two
  values, or (inner guard of these two rules) a previous or current value read from the
  series is absent or not a number. The volume rule also takes its neutral entry when a
  price is absent or not a number.
\<close>

theorem C2_one_contribution_per_rule:
  "map name (signals (performAnalysis ind p q))
     = [N_Trend, N_RSI, N_Crossover, N_MACD, N_Volume]
   \<and> (opt_current (sma50 ind) = Undefined \<or> opt_current (sma200 ind) = Undefined \<longrightarrow>
        signals (performAnalysis ind p q) ! 0
          = \<lparr>name = N_Trend, display = L_Insufficient, signal = Neutral, weight = 0\<rparr>)
   \<and> (opt_current (rsi ind) = Undefined \<longrightarrow>
        signals (performAnalysis ind p q) ! 1
          = \<lparr>name = N_RSI, display = L_Insufficient, signal = Neutral, weight = 0\<rparr>)
   \<and> (opt_current (sma20 ind) = Undefined \<or> length (opt_values (sma20 ind)) \<le> 1
        \<or> opt_current (sma50 ind) = Undefined \<or> length (opt_values (sma50 ind)) \<le> 1 \<longrightarrow>
        signals (performAnalysis ind p q) ! 2
          = \<lparr>name = N_Crossover, display = L_Insufficient, signal = Neutral, weight = 0\<rparr>)
   \<and> (opt_current (sma20 ind) \<noteq> Undefined \<and> 1 < length (opt_values (sma20 ind))
        \<and> opt_current (sma50 ind) \<noteq> Undefined \<and> 1 < length (opt_values (sma50 ind))
        \<and> (elem_at (opt_values (sma20 ind)) (int (length (opt_values (sma20 ind))) - 2)
             = Undefined
           \<or> elem_at (opt_values (sma50 ind)) (int (length (opt_values (sma50 ind))) - 2)
             = Undefined
           \<or> isNaN (elem_at (opt_values (sma20 ind)) (int (length (opt_values (sma20 ind))) - 2))
           \<or> isNaN (elem_at (opt_values (sma50 ind)) (int (length (opt_values (sma50 ind))) - 2)))
        \<longrightarrow>
        signals (performAnalysis ind p q) ! 2
          = \<lparr>name = N_Crossover, display = L_PreviousInvalid, signal = Neutral, weight = 0\<rparr>)
   \<and> (\<not> length_gt (opt_length (macd_MACD ind)) 1
        \<or> \<not> length_gt (opt_length (macd_signal_of ind)) 1
        \<or> \<not> length_gt (opt_length (macd_histogram ind)) 1 \<longrightarrow>
        signals (performAnalysis ind p q) ! 3
          = \<lparr>name = N_MACD, display = L_Insufficient, signal = Neutral, weight = 0\<rparr>)
   \<and> (length_gt (opt_length (macd_MACD ind)) 1
        \<and> length_gt (opt_length (macd_signal_of ind)) 1
        \<and> length_gt (opt_length (macd_histogram ind)) 1
        \<and> (macd_currentMACD ind = Undefined \<or> macd_currentSignal ind = Undefined
           \<or> elem_at (opt_array (macd_MACD ind)) (int (length (opt_array (macd_MACD ind))) - 2)
               = Undefined
           \<or> elem_at (opt_array (macd_signal_of ind))
                 (int (length (opt_array (macd_signal_of ind))) - 2) = Undefined
           \<or> elem_at (opt_array (macd_histogram ind))
                 (int (length (opt_array (macd_histogram ind))) - 1) = Undefined
           \<or> elem_at (opt_array (macd_histogram ind))
                 (int (length (opt_array (macd_histogram ind))) - 2) = Undefined
           \<or> isNaN (macd_currentMACD ind) \<or> isNaN (macd_currentSignal ind))
        \<longrightarrow>
        signals (performAnalysis ind p q) ! 3
          = \<lparr>name = N_MACD, display = L_PreviousInvalid, signal = Neutral, weight = 0\<rparr>)
   \<and> (opt_current (volumeSma20 ind) = Undefined \<or> p = Undefined \<or> q = Undefined
        \<or> isNaN p \<or> isNaN q \<longrightarrow>
        signals (performAnalysis ind p q) ! 4
          = \<lparr>name = N_Volume, display = L_InsufficientOrInvalid, signal = Neutral,
              weight = 0\<rparr>)"
proof -
  have names: "map name (signals (performAnalysis ind p q))
     = [N_Trend, N_RSI, N_Crossover, N_MACD, N_Volume]"
    by (rule performAnalysis_names)
  have trend: "signals (performAnalysis ind p q) ! 0
      = \<lparr>name = N_Trend, display = L_Insufficient, signal = Neutral, weight = 0\<rparr>"
    if "opt_current (sma50 ind) = Undefined \<or> opt_current (sma200 ind) = Undefined"
    using that by (simp add: performAnalysis_signals trend_rule_absent last_push)
  have rsi: "signals (performAnalysis ind p q) ! 1
      = \<lparr>name = N_RSI, display = L_Insufficient, signal = Neutral, weight = 0\<rparr>"
    if "opt_current (rsi ind) = Undefined"
    using that by (simp add: performAnalysis_signals rsi_rule_absent last_push)
  have cross: "signals (performAnalysis ind p q) ! 2
      = \<lparr>name = N_Crossover, display = L_Insufficient, signal = Neutral, weight = 0\<rparr>"
    if "opt_current (sma20 ind) = Undefined \<or> length (opt_values (sma20 ind)) \<le> 1
        \<or> opt_current (sma50 ind) = Undefined \<or> length (opt_values (sma50 ind)) \<le> 1"
    by (simp add: performAnalysis_signals crossover_rule_absent [OF that] last_push)
  have cross': "signals (performAnalysis ind p q) ! 2
      = \<lparr>name = N_Crossover, display = L_PreviousInvalid, signal = Neutral, weight = 0\<rparr>"
    if "opt_current (sma20 ind) \<noteq> Undefined" "1 < length (opt_values (sma20 ind))"
      "opt_current (sma50 ind) \<noteq> Undefined" "1 < length (opt_values (sma50 ind))"
      "elem_at (opt_values (sma20 ind)) (int (length (opt_values (sma20 ind))) - 2) = Undefined
       \<or> elem_at (opt_values (sma50 ind)) (int (length (opt_values (sma50 ind))) - 2) = Undefined
       \<or> isNaN (elem_at (opt_values (sma20 ind)) (int (length (opt_values (sma20 ind))) - 2))
       \<or> isNaN (elem_at (opt_values (sma50 ind)) (int (length (opt_values (sma50 ind))) - 2))"
    by (simp add: performAnalysis_signals crossover_rule_invalid [OF that] last_push)
  have macd: "signals (performAnalysis ind p q) ! 3
      = \<lparr>name = N_MACD, display = L_Insufficient, signal = Neutral, weight = 0\<rparr>"
    if "\<not> length_gt (opt_length (macd_MACD ind)) 1
        \<or> \<not> length_gt (opt_length (macd_signal_of ind)) 1
        \<or> \<not> length_gt (opt_length (macd_histogram ind)) 1"
    by (simp add: performAnalysis_signals macd_rule_absent [OF that] last_push)
  have macd': "signals (performAnalysis ind p q) ! 3
      = \<lparr>name = N_MACD, display = L_PreviousInvalid, signal = Neutral, weight = 0\<rparr>"
    if "length_gt (opt_length (macd_MACD ind)) 1"
      "length_gt (opt_length (macd_signal_of ind)) 1"
      "length_gt (opt_length (macd_histogram ind)) 1"
      "macd_currentMACD ind = Undefined \<or> macd_currentSignal ind = Undefined
       \<or> elem_at (opt_array (macd_MACD ind)) (int (length (opt_array (macd_MACD ind))) - 2)
           = Undefined
       \<or> elem_at (opt_array (macd_signal_of ind))
             (int (length (opt_array (macd_signal_of ind))) - 2) = Undefined
       \<or> elem_at (opt_array (macd_histogram ind))
             (int (length (opt_array (macd_histogram ind))) - 1) = Undefined
       \<or> elem_at (opt_array (macd_histogram ind))
             (int (length (opt_array (macd_histogram ind))) - 2) = Undefined
       \<or> isNaN (macd_currentMACD ind) \<or> isNaN (macd_currentSignal ind)"
    by (simp add: performAnalysis_signals macd_rule_invalid [OF that] last_push)
  have volume: "signals (performAnalysis ind p q) ! 4
      = \<lparr>name = N_Volume, display = L_InsufficientOrInvalid, signal = Neutral, weight = 0\<rparr>"
    if "opt_current (volumeSma20 ind) = Undefined \<or> p = Undefined \<or> q = Undefined
        \<or> isNaN p \<or> isNaN q"
    by (simp add: performAnalysis_signals volume_rule_absent [OF that] last_push)
  show ?thesis
    using names trend rsi cross cross' macd macd' volume by blast
qed

text \<open>
  Claim C2 on the bundle without any data (all five entries are the neutral entry for
  insufficient data) and on a bundle whose crossover and MACD series have two values but
  lack a previous SMA 20 and a current MACD (both entries are the neutral entry for
  invalid previous data).
\<close>

theorem C2_one_contribution_per_rule_witness:
  "opt_current (sma50 no_data) = Undefined \<and> opt_current (rsi no_data) = Undefined
   \<and> opt_current (sma20 no_data) = Undefined
   \<and> \<not> length_gt (opt_length (macd_MACD no_data)) 1
   \<and> opt_current (volumeSma20 no_data) = Undefined
   \<and> signals (performAnalysis no_data (num 3) (num 3)) ! 0
       = \<lparr>name = N_Trend, display = L_Insufficient, signal = Neutral, weight = 0\<rparr>
   \<and> signals (performAnalysis no_data (num 3) (num 3)) ! 1
       = \<lparr>name = N_RSI, display = L_Insufficient, signal = Neutral, weight = 0\<rparr>
   \<and> signals (performAnalysis no_data (num 3) (num 3)) ! 2
       = \<lparr>name = N_Crossover, display = L_Insufficient, signal = Neutral, weight = 0\<rparr>
   \<and> signals (performAnalysis no_data (num 3) (num 3)) ! 3
       = \<lparr>name = N_MACD, display = L_Insufficient, signal = Neutral, weight = 0\<rparr>
   \<and> signals (performAnalysis no_data (num 3) (num 3)) ! 4
       = \<lparr>name = N_Volume, display = L_InsufficientOrInvalid, signal = Neutral, weight = 0\<rparr>
   \<and> elem_at (opt_values (sma20 stale_previous))
         (int (length (opt_values (sma20 stale_previous))) - 2) = Undefined
   \<and> macd_currentMACD stale_previous = Undefined
   \<and> signals (performAnalysis stale_previous (num 3) (num 3)) ! 2
       = \<lparr>name = N_Crossover, display = L_PreviousInvalid, signal = Neutral, weight = 0\<rparr>
   \<and> signals (performAnalysis stale_previous (num 3) (num 3)) ! 3
       = \<lparr>name = N_MACD, display = L_PreviousInvalid, signal = Neutral, weight = 0\<rparr>"
proof -
  have h: "opt_current (sma50 no_data) = Undefined" "opt_current (rsi no_data) = Undefined"
    "opt_current (sma20 no_data) = Undefined"
    "\<not> length_gt (opt_length (macd_MACD no_data)) 1"
    "opt_current (volumeSma20 no_data) = Undefined"
    by (simp_all add: no_data_def opt_current_def macd_MACD_def empty_macd_def
        opt_length_def length_gt_def)
  have g: "opt_current (sma20 stale_previous) \<noteq> Undefined"
    "1 < length (opt_values (sma20 stale_previous))"
    "opt_current (sma50 stale_previous) \<noteq> Undefined"
    "1 < length (opt_values (sma50 stale_previous))"
    "elem_at (opt_values (sma20 stale_previous))
       (int (length (opt_values (sma20 stale_previous))) - 2) = Undefined"
    "length_gt (opt_length (macd_MACD stale_previous)) 1"
    "length_gt (opt_length (macd_signal_of stale_previous)) 1"
    "length_gt (opt_length (macd_histogram stale_previous)) 1"
    "macd_currentMACD stale_previous = Undefined"
    by (simp_all add: stale_previous_def no_data_def opt_current_def opt_values_def
        pair_def num_def elem_at_def macd_MACD_def macd_signal_of_def macd_histogram_def
        macd_currentMACD_def opt_length_def length_gt_def)
  show ?thesis
    using C2_one_contribution_per_rule [of no_data "num 3" "num 3"]
      C2_one_contribution_per_rule [of stale_previous "num 3" "num 3"] h g
    by simp
qed

lemma performAnalysis_score: "score (performAnalysis ind p q) = score (scored ind p q)"
  unfolding performAnalysis_def by (rule score_decide)

text \<open>
  Claim C1 as stated fails: the maximum used for the thresholds is not 100, and a score
  of 50 (an uptrend with an oversold RSI) is not a buy.
\<close>

theorem C1_thresholds_counterexample:
  "maxPossibleScore \<noteq> 100
   \<and> score (performAnalysis uptrend_oversold (num 3) (num 3)) \<ge> 50
   \<and> decision (performAnalysis uptrend_oversold (num 3) (num 3)) \<noteq> Buy"
  by (simp add: uptrend_oversold_def no_data_def eval_simps)

text \<open>
  Claim C1, amended. The maximum used for the thresholds is 120, the sum of all seven
  configured weights (30+20+20+15+15+10+10): the decision is buy exactly when the score
  is at least 60, sell exactly when it is at most -60, and neutral otherwise.
\<close>

theorem C1_thresholds:
  "maxPossibleScore = 120
   \<and> (decision (performAnalysis ind p q) = Buy) = (score (performAnalysis ind p q) \<ge> 60)
   \<and> (decision (performAnalysis ind p q) = Sell) = (score (performAnalysis ind p q) \<le> - 60)
   \<and> (decision (performAnalysis ind p q) = Neutral)
       = (- 60 < score (performAnalysis ind p q) \<and> score (performAnalysis ind p q) < 60)"
  unfolding performAnalysis_def
  by (auto simp: maxPossibleScore_value decide_decision score_decide)

text \<open>Claim C1, amended, at a score of 50: the decision is neutral.\<close>

theorem C1_thresholds_witness:
  "decision (performAnalysis uptrend_oversold (num 3) (num 3)) = Neutral"
proof -
  have "score (performAnalysis uptrend_oversold (num 3) (num 3)) = 50"
    by (simp add: uptrend_oversold_def no_data_def eval_simps)
  then show ?thesis
    using C1_thresholds [of uptrend_oversold "num 3" "num 3"] by simp
qed

text \<open>
  Claim C3. The score lies between \<open>- maxPossibleScore\<close> and \<open>maxPossibleScore\<close>, the
  confidence between 0 and 1, and the confidence of a neutral decision is 0.
\<close>

theorem C3_score_and_confidence_ranges:
  "- maxPossibleScore \<le> score (performAnalysis ind p q)
   \<and> score (performAnalysis ind p q) \<le> maxPossibleScore
   \<and> 0 \<le> confidence (performAnalysis ind p q)
   \<and> confidence (performAnalysis ind p q) \<le> 1
   \<and> (decision (performAnalysis ind p q) = Neutral \<longrightarrow>
        confidence (performAnalysis ind p q) = 0)"
proof -
  have b: "\<bar>score (scored ind p q)\<bar> \<le> 191 / 2" by (rule scored_bound)
  have "\<bar>score (performAnalysis ind p q)\<bar> \<le> 191 / 2"
    using b by (simp add: performAnalysis_score)
  moreover have "0 \<le> confidence (performAnalysis ind p q)"
    and "confidence (performAnalysis ind p q) \<le> 5329259559055087 / 9007199254740992"
    and "decision (performAnalysis ind p q) = Neutral \<longrightarrow>
        confidence (performAnalysis ind p q) = 0"
    unfolding performAnalysis_def using decide_confidence [OF b] by blast+
  ultimately show ?thesis
    unfolding maxPossibleScore_value by (intro conjI; linarith?)
qed

text \<open>Claim C3 on the bundle without any data: neutral, with confidence 0.\<close>

theorem C3_score_and_confidence_ranges_witness:
  "decision (performAnalysis no_data (num 3) (num 3)) = Neutral
   \<and> confidence (performAnalysis no_data (num 3) (num 3)) = 0"
proof -
  have "decision (performAnalysis no_data (num 3) (num 3)) = Neutral"
    by (simp add: no_data_def eval_simps)
  then show ?thesis
    using C3_score_and_confidence_ranges [of no_data "num 3" "num 3"] by simp
qed

text \<open>
  Claim C4 as stated fails: in a downtrend the trend contribution is a sell whose weight
  field is 30, not -30, and the score -30 is not the sum 30 of the weight fields.
\<close>

theorem C4_signed_weights_counterexample:
  "signal (signals (performAnalysis downtrend (num (1 / 2)) (num (1 / 2))) ! 0) = Sell
   \<and> weight (signals (performAnalysis downtrend (num (1 / 2)) (num (1 / 2))) ! 0) = 30
   \<and> score (performAnalysis downtrend (num (1 / 2)) (num (1 / 2))) = - 30
   \<and> sum_list (map weight (signals (performAnalysis downtrend (num (1 / 2)) (num (1 / 2)))))
       = 30"
  by (simp add: downtrend_def no_data_def eval_simps)

text \<open>
  Claim C4, amended. The weight field of a contribution is the magnitude of the amount
  applied to the score: positive for a buy (added) and for a sell (subtracted), and 0 for
  a neutral contribution; the score is the sum of the weights of the buy contributions
  minus the sum of the weights of the sell contributions.
\<close>

theorem C4_weights_are_magnitudes:
  "(\<forall>c \<in> set (signals (performAnalysis ind p q)).
      (signal c = Buy \<longrightarrow> 0 < weight c \<and> applied c = weight c)
      \<and> (signal c = Sell \<longrightarrow> 0 < weight c \<and> applied c = - weight c)
      \<and> (signal c = Neutral \<longrightarrow> weight c = 0 \<and> applied c = 0))
   \<and> score (performAnalysis ind p q)
       = sum_list (map applied (signals (performAnalysis ind p q)))"
proof (intro conjI ballI)
  fix c assume "c \<in> set (signals (performAnalysis ind p q))"
  then have "magnitude_ok c"
    unfolding performAnalysis_def by (simp add: signals_decide scored_magnitudes)
  then show "signal c = Buy \<longrightarrow> 0 < weight c \<and> applied c = weight c"
    and "signal c = Sell \<longrightarrow> 0 < weight c \<and> applied c = - weight c"
    and "signal c = Neutral \<longrightarrow> weight c = 0 \<and> applied c = 0"
    by (auto simp: magnitude_ok_def applied_def split: if_splits)
next
  show "score (performAnalysis ind p q)
      = sum_list (map applied (signals (performAnalysis ind p q)))"
    unfolding performAnalysis_def by (simp add: signals_decide score_decide scored_score)
qed

text \<open>Claim C4, amended, in a downtrend: the sell contribution of weight 30 counts -30.\<close>

theorem C4_weights_are_magnitudes_witness:
  "applied \<lparr>name = N_Trend, display = L_Downtrend, signal = Sell, weight = 30\<rparr> = - 30
   \<and> score (performAnalysis downtrend (num (1 / 2)) (num (1 / 2))) = - 30"
proof -
  let ?r = "performAnalysis downtrend (num (1 / 2)) (num (1 / 2))"
  let ?c = "\<lparr>name = N_Trend, display = L_Downtrend, signal = Sell, weight = 30\<rparr>"
  have s: "signals ?r =
      [?c,
       \<lparr>name = N_RSI, display = L_Insufficient, signal = Neutral, weight = 0\<rparr>,
       \<lparr>name = N_Crossover, display = L_Insufficient, signal = Neutral, weight = 0\<rparr>,
       \<lparr>name = N_MACD, display = L_Insufficient, signal = Neutral, weight = 0\<rparr>,
       \<lparr>name = N_Volume, display = L_InsufficientOrInvalid, signal = Neutral, weight = 0\<rparr>]"
    by (simp add: downtrend_def no_data_def eval_simps)
  have m: "?c \<in> set (signals ?r)" unfolding s by simp
  have t: "(\<forall>c \<in> set (signals ?r).
      (signal c = Buy \<longrightarrow> 0 < weight c \<and> applied c = weight c)
      \<and> (signal c = Sell \<longrightarrow> 0 < weight c \<and> applied c = - weight c)
      \<and> (signal c = Neutral \<longrightarrow> weight c = 0 \<and> applied c = 0))
   \<and> score ?r = sum_list (map applied (signals ?r))"
    by (rule C4_weights_are_magnitudes)
  from t m have "applied ?c = - weight ?c" by auto
  moreover from t have "score ?r = sum_list (map applied (signals ?r))" by blast
  ultimately show ?thesis unfolding s by (simp add: applied_def)
qed

text \<open>
  Claim C9 as stated fails: when every rule votes buy with its largest weight the
  confidence is the double 0.5916666666666667 (= 5329259559055087 / 2^53, the quotient
  (95.5 - 60) / 60 as doubles divide it), which is above 61/130.
\<close>

theorem C9_confidence_bound_counterexample:
  "confidence (performAnalysis all_buy (num 5) (num 4))
     = 5329259559055087 / 9007199254740992
   \<and> \<not> confidence (performAnalysis all_buy (num 5) (num 4)) \<le> 61 / 130"
  by (simp add: all_buy_def eval_simps)

text \<open>
  Claim C9, amended. The absolute value of the score is at most 95.5: exactly five rules
  contribute and the MACD rule applies at most 0.7 of its weight. So the confidence never
  reaches 1: it is at most the double 0.5916666666666667 (= 5329259559055087 / 2^53), which
  is what the division (95.5 - 60) / 60 gives in doubles, the double nearest to 71/120.
\<close>

theorem C9_score_and_confidence_bounds:
  "\<bar>score (performAnalysis ind p q)\<bar> \<le> 191 / 2
   \<and> confidence (performAnalysis ind p q) \<le> 5329259559055087 / 9007199254740992
   \<and> confidence (performAnalysis ind p q) < 1
   \<and> length (signals (performAnalysis ind p q)) = 5
   \<and> weight (signals (performAnalysis ind p q) ! 3) \<le> w_macd CONFIG_weights * (7 / 10)"
proof -
  have b: "\<bar>score (scored ind p q)\<bar> \<le> 191 / 2" by (rule scored_bound)
  have c: "confidence (performAnalysis ind p q) \<le> 5329259559055087 / 9007199254740992"
    unfolding performAnalysis_def by (rule decide_confidence(2) [OF b])
  have "rule_step N_MACD (21 / 2) initial_analysis (macd_rule ind initial_analysis)"
    by (rule macd_rule_step)
  then have "weight (last (signals (macd_rule ind initial_analysis))) \<le> 21 / 2"
    unfolding rule_step_def step_def by auto
  then have "weight (signals (performAnalysis ind p q) ! 3) \<le> w_macd CONFIG_weights * (7 / 10)"
    by (simp add: performAnalysis_signals CONFIG_weights_def)
  moreover have "length (signals (performAnalysis ind p q)) = 5"
    by (simp add: performAnalysis_signals)
  moreover have "\<bar>score (performAnalysis ind p q)\<bar> \<le> 191 / 2"
    using b by (simp add: performAnalysis_score)
  moreover have "confidence (performAnalysis ind p q) < 1" using c by linarith
  ultimately show ?thesis using c by blast
qed

text \<open>
  Claim C10. When \<^verbatim>\<open>currentVolume\<close> is absent while \<^verbatim>\<open>volumeSma20.current\<close> is
  present and both prices are defined numbers, the volume ratio is 0 and the volume
  contribution is the neutral entry of weight 0.
\<close>

theorem C10_missing_current_volume:
  assumes "currentVolume ind = Undefined" and "opt_current (volumeSma20 ind) \<noteq> Undefined"
    and "p \<noteq> Undefined" and "q \<noteq> Undefined" and "\<not> isNaN p" and "\<not> isNaN q"
  shows "signals (performAnalysis ind p q) ! 4
     = \<lparr>name = N_Volume, display = L_VolumeNormal (Fin 0), signal = Neutral, weight = 0\<rparr>"
  by (simp add: performAnalysis_signals volume_rule_no_volume [OF assms] last_push)

text \<open>Claim C10 on a bundle with a volume average and no current volume.\<close>

theorem C10_missing_current_volume_witness:
  "currentVolume volume_missing = Undefined
   \<and> opt_current (volumeSma20 volume_missing) \<noteq> Undefined
   \<and> num 5 \<noteq> Undefined \<and> num 4 \<noteq> Undefined \<and> \<not> isNaN (num 5) \<and> \<not> isNaN (num 4)
   \<and> signals (performAnalysis volume_missing (num 5) (num 4)) ! 4
       = \<lparr>name = N_Volume, display = L_VolumeNormal (Fin 0), signal = Neutral, weight = 0\<rparr>"
proof -
  have h: "currentVolume volume_missing = Undefined"
    "opt_current (volumeSma20 volume_missing) \<noteq> Undefined"
    "num 5 \<noteq> Undefined" "num 4 \<noteq> Undefined" "\<not> isNaN (num 5)" "\<not> isNaN (num 4)"
    by (simp_all add: volume_missing_def no_data_def opt_current_def single_def num_def
        isNaN_def)
  show ?thesis
    using C10_missing_current_volume [OF h] h by simp
qed

section \<open>Properties of the caching fetcher and of the analysis run\<close>


lemma fetchKlines_hit:
  "cachedData st (cacheKey symbol interval limit) = Some data \<Longrightarrow>
   fetchKlines env st symbol interval limit
     = \<lparr>outcome = Inr data, state_after = st, requested = [], waited = None\<rparr>"
  by (simp add: fetchKlines_def)

lemma fetchKlines_caches:
  "outcome (fetchKlines env st symbol interval limit) = Inr data \<Longrightarrow>
   cachedData (state_after (fetchKlines env st symbol interval limit))
     (cacheKey symbol interval limit) = Some data"
  by (auto simp: fetchKlines_def Let_def split: option.splits response.splits if_splits)

lemma fetchKlines_keeps:
  "cachedData st key = Some data \<Longrightarrow>
   cachedData (state_after (fetchKlines env st symbol interval limit)) key = Some data"
  by (auto simp: fetchKlines_def Let_def split: option.splits response.splits if_splits)

lemma run_calls_keeps:
  "cachedData st key = Some data \<Longrightarrow> cachedData (run_calls st calls) key = Some data"
proof (induction calls arbitrary: st)
  case Nil
  then show ?case by simp
next
  case (Cons call calls)
  obtain env symbol interval limit where call: "call = (env, symbol, interval, limit)"
    by (cases call) auto
  show ?case
    unfolding call using Cons.prems by (simp add: Cons.IH fetchKlines_keeps)
qed

text \<open>
  Claim C6. After a successful call, and whatever calls came in between, a call with the
  same instrument, interval and length returns the cached series: it requests no URL,
  waits for no rate-limit delay, and leaves the cache and the last-request timestamp as
  they were.
\<close>

theorem C6_cached_second_call:
  assumes "outcome (fetchKlines env st symbol interval limit) = Inr data"
  shows "fetchKlines env' (run_calls (state_after (fetchKlines env st symbol interval limit)) calls)
           symbol interval limit
         = \<lparr>outcome = Inr data,
            state_after = run_calls (state_after (fetchKlines env st symbol interval limit)) calls,
            requested = [], waited = None\<rparr>"
  by (intro fetchKlines_hit run_calls_keeps fetchKlines_caches assms)

text \<open>
  Claim C6 on a fresh fetcher: the first call requests one URL, a call for another key
  fails, and the second call for the first key answers from the cache on a dead network.
\<close>

theorem C6_cached_second_call_witness:
  "outcome (fetchKlines short_network fresh ''BTCUSDT'' ''1h'' 300) = Inr klines3
   \<and> requested (fetchKlines short_network fresh ''BTCUSDT'' ''1h'' 300)
       = [apiUrl ''BTCUSDT'' ''1h'' 300]
   \<and> requested (fetchKlines dead_network
        (run_calls (state_after (fetchKlines short_network fresh ''BTCUSDT'' ''1h'' 300))
           [(dead_network, ''ETHUSDT'', ''4h'', 300)])
        ''BTCUSDT'' ''1h'' 300) = []
   \<and> outcome (fetchKlines dead_network
        (run_calls (state_after (fetchKlines short_network fresh ''BTCUSDT'' ''1h'' 300))
           [(dead_network, ''ETHUSDT'', ''4h'', 300)])
        ''BTCUSDT'' ''1h'' 300) = Inr klines3"
proof -
  have h: "outcome (fetchKlines short_network fresh ''BTCUSDT'' ''1h'' 300) = Inr klines3"
    and r: "requested (fetchKlines short_network fresh ''BTCUSDT'' ''1h'' 300)
       = [apiUrl ''BTCUSDT'' ''1h'' 300]"
    by (simp_all add: fetchKlines_def fresh_def short_network_def)
  show ?thesis
    using h r C6_cached_second_call [OF h, of dead_network "[(dead_network, ''ETHUSDT'', ''4h'', 300)]"]
    by simp
qed




section \<open>Properties of the failover fetcher\<close>

lemma try_endpoints_exhausted:
  "\<forall>e \<in> set es. attempt (net (endpoint_url symbol interval limit e)) = None \<Longrightarrow>
   try_endpoints net symbol interval limit es
     = (Inl DataUnavailable, map (endpoint_url symbol interval limit) es)"
  by (induction es) (simp_all add: Let_def)

lemma try_endpoints_first_success:
  "\<forall>e' \<in> set pre. attempt (net (endpoint_url symbol interval limit e')) = None \<Longrightarrow>
   attempt (net (endpoint_url symbol interval limit e)) = Some data \<Longrightarrow>
   try_endpoints net symbol interval limit (pre @ e # post)
     = (Inr data, map (endpoint_url symbol interval limit) (pre @ [e]))"
  by (induction pre) (simp_all add: Let_def)

lemma first_success_or_none:
  "(\<exists>pre e post data. es = pre @ e # post
       \<and> (\<forall>e' \<in> set pre. attempt (net (endpoint_url symbol interval limit e')) = None)
       \<and> attempt (net (endpoint_url symbol interval limit e)) = Some data)
   \<or> (\<forall>e \<in> set es. attempt (net (endpoint_url symbol interval limit e)) = None)"
proof (cases "\<exists>e \<in> set es. attempt (net (endpoint_url symbol interval limit e)) \<noteq> None")
  case True
  then obtain pre e post where "es = pre @ e # post"
    and "attempt (net (endpoint_url symbol interval limit e)) \<noteq> None"
    and "\<forall>e' \<in> set pre. \<not> attempt (net (endpoint_url symbol interval limit e')) \<noteq> None"
    using split_list_first_prop [of es "\<lambda>e. attempt (net (endpoint_url symbol interval limit e)) \<noteq> None"]
    by blast
  then show ?thesis by auto
next
  case False
  then show ?thesis by simp
qed

lemma endpoint_urls_distinct:
  "distinct (map (endpoint_url symbol interval limit) endpoints)"
proof -
  have "inj_on (endpoint_url symbol interval limit) (set endpoints)"
    by (rule inj_onI) (simp add: endpoint_url_def)
  moreover have "distinct endpoints" by (simp add: endpoints_def)
  ultimately show ?thesis by (simp add: distinct_map)
qed

lemma attempt_Some_iff:
  "attempt r = Some data \<longleftrightarrow> r = Http True (Some data) \<and> 50 \<le> length data"
  by (auto simp: attempt_def split: response.splits option.splits if_splits)

lemma attempt_None_iff:
  "attempt r = None \<longleftrightarrow> (\<forall>short. r = Http True (Some short) \<longrightarrow> length short < 50)"
  by (auto simp: attempt_def split: response.splits option.splits if_splits)

text \<open>
  Claim C7. The failover fetcher requests the endpoints in their listed order, each at
  most once (the URLs are distinct and the requests are a prefix of them). A response
  satisfies when it is ok and its body decodes to at least 50 klines; every other
  response (a rejected request, a status that is not ok, a body that does not decode, a
  shorter series) moves on to the next endpoint. The first endpoint with a satisfying
  response ends the loop with the klines of that response, and no later endpoint is
  requested; when no endpoint has one, all were requested and the result is the
  data-unavailable error. One of the two always is the case.
\<close>

theorem C7_failover_order:
  "distinct (map (endpoint_url symbol interval limit) endpoints)
   \<and> (\<forall>pre e post data.
         endpoints = pre @ e # post
         \<and> (\<forall>e' \<in> set pre. \<forall>short.
               net (endpoint_url symbol interval limit e') = Http True (Some short)
               \<longrightarrow> length short < 50)
         \<and> net (endpoint_url symbol interval limit e) = Http True (Some data)
         \<and> 50 \<le> length data
         \<longrightarrow> fetchKlines_failover net symbol interval limit
               = (Inr data, map (endpoint_url symbol interval limit) (pre @ [e])))
   \<and> ((\<forall>e \<in> set endpoints. \<forall>short.
          net (endpoint_url symbol interval limit e) = Http True (Some short)
          \<longrightarrow> length short < 50)
        \<longrightarrow> fetchKlines_failover net symbol interval limit
              = (Inl DataUnavailable, map (endpoint_url symbol interval limit) endpoints))
   \<and> ((\<exists>pre e post data. endpoints = pre @ e # post
          \<and> (\<forall>e' \<in> set pre. \<forall>short.
                net (endpoint_url symbol interval limit e') = Http True (Some short)
                \<longrightarrow> length short < 50)
          \<and> net (endpoint_url symbol interval limit e) = Http True (Some data)
          \<and> 50 \<le> length data)
        \<or> (\<forall>e \<in> set endpoints. \<forall>short.
              net (endpoint_url symbol interval limit e) = Http True (Some short)
              \<longrightarrow> length short < 50))"
proof -
  have success: "fetchKlines_failover net symbol interval limit
      = (Inr data, map (endpoint_url symbol interval limit) (pre @ [e]))"
    if "endpoints = pre @ e # post"
      and "\<forall>e' \<in> set pre. attempt (net (endpoint_url symbol interval limit e')) = None"
      and "attempt (net (endpoint_url symbol interval limit e)) = Some data"
    for pre e post data
    unfolding fetchKlines_failover_def that(1)
    by (rule try_endpoints_first_success [OF that(2,3)])
  have exhausted: "fetchKlines_failover net symbol interval limit
      = (Inl DataUnavailable, map (endpoint_url symbol interval limit) endpoints)"
    if "\<forall>e \<in> set endpoints. attempt (net (endpoint_url symbol interval limit e)) = None"
    unfolding fetchKlines_failover_def by (rule try_endpoints_exhausted [OF that])
  show ?thesis
    using success exhausted
      first_success_or_none [of endpoints net symbol interval limit]
    unfolding attempt_Some_iff attempt_None_iff
    by (simp add: endpoint_urls_distinct) blast
qed

lemma only_api2_urls:
  "only_api2 (endpoint_url ''BTCUSDT'' ''1d'' 200 ''https://api.binance.com'') = NetworkError"
  "only_api2 (endpoint_url ''BTCUSDT'' ''1d'' 200 ''https://api1.binance.com'') = NetworkError"
  "only_api2 (endpoint_url ''BTCUSDT'' ''1d'' 200 ''https://api2.binance.com'')
     = Http True (Some klines50)"
  by (simp_all add: only_api2_def endpoint_url_def)

text \<open>
  Claim C7 when only the third endpoint answers (three requests, the fourth endpoint is
  not contacted), and on a dead network.
\<close>

theorem C7_failover_order_witness:
  "fetchKlines_failover only_api2 ''BTCUSDT'' ''1d'' 200
     = (Inr klines50,
        [endpoint_url ''BTCUSDT'' ''1d'' 200 ''https://api.binance.com'',
         endpoint_url ''BTCUSDT'' ''1d'' 200 ''https://api1.binance.com'',
         endpoint_url ''BTCUSDT'' ''1d'' 200 ''https://api2.binance.com''])
   \<and> fetchKlines_failover (\<lambda>_. NetworkError) ''BTCUSDT'' ''1d'' 200
     = (Inl DataUnavailable, map (endpoint_url ''BTCUSDT'' ''1d'' 200) endpoints)"
proof -
  let ?u = "endpoint_url ''BTCUSDT'' ''1d'' 200"
  have e: "endpoints = [''https://api.binance.com'', ''https://api1.binance.com'']
      @ ''https://api2.binance.com'' # [''https://api3.binance.com'']"
    by (simp add: endpoints_def)
  have p: "\<forall>e' \<in> set [''https://api.binance.com'', ''https://api1.binance.com''].
      \<forall>short. only_api2 (?u e') = Http True (Some short) \<longrightarrow> length short < 50"
    using only_api2_urls(1,2) by simp
  have l: "50 \<le> length klines50" by (simp add: klines50_def)
  have "fetchKlines_failover only_api2 ''BTCUSDT'' ''1d'' 200
     = (Inr klines50, map ?u ([''https://api.binance.com'', ''https://api1.binance.com'']
          @ [''https://api2.binance.com'']))"
    using C7_failover_order [of "''BTCUSDT''" "''1d''" 200 only_api2] e p only_api2_urls(3) l
    by blast
  moreover have "fetchKlines_failover (\<lambda>_. NetworkError) ''BTCUSDT'' ''1d'' 200
     = (Inl DataUnavailable, map ?u endpoints)"
    using C7_failover_order [of "''BTCUSDT''" "''1d''" 200 "\<lambda>_. NetworkError"]
    by simp
  ultimately show ?thesis by simp
qed

section \<open>Properties of the Indicator Pipeline\<close>

text \<open>
  Claim C8 as stated fails: on 17 (= 14 + 3) klines the stochastic entry is empty, although
  the package would have answered.
\<close>

theorem C8_stochastic_minimum_counterexample:
  "14 + 3 \<le> length klines17
   \<and> lib_stochastic ready_library
        (map (\<lambda>k. field ready_library k 2) klines17)
        (map (\<lambda>k. field ready_library k 3) klines17)
        (map (\<lambda>k. field ready_library k 4) klines17) 14 3 \<noteq> None
   \<and> stochastic (calculateIndicators ready_library klines17)
       = Some \<lparr>stoch_k = None, stoch_d = None, currentK = Undefined, currentD = Undefined\<rparr>"
  by (simp add: calculateIndicators_def Let_def klines17_def ready_library_def
      empty_stochastic_def)

text \<open>
  Claim C8, amended. The stochastic(14,3) indicator is computed exactly when the series
  has at least 18 klines; for a shorter series the stochastic entry of the bundle is
  empty, with its current values absent.
\<close>

theorem C8_stochastic_minimum:
  "(18 \<le> length klines \<longrightarrow>
      stochastic (calculateIndicators lib klines)
        = Some (case lib_stochastic lib (map (\<lambda>k. field lib k 2) klines)
                       (map (\<lambda>k. field lib k 3) klines)
                       (map (\<lambda>k. field lib k 4) klines) 14 3 of
                  Some r \<Rightarrow> stochastic_entry_of r
                | None \<Rightarrow> empty_stochastic))
   \<and> (length klines < 18 \<longrightarrow>
      stochastic (calculateIndicators lib klines)
        = Some \<lparr>stoch_k = None, stoch_d = None, currentK = Undefined, currentD = Undefined\<rparr>)"
  by (simp add: calculateIndicators_def Let_def empty_stochastic_def)

text \<open>Claim C8, amended, on 18 and on 17 klines.\<close>

theorem C8_stochastic_minimum_witness:
  "18 \<le> length klines18 \<and> length klines17 < 18
   \<and> stochastic (calculateIndicators ready_library klines18)
       = Some \<lparr>stoch_k = Some [num 50], stoch_d = Some [num 50], currentK = num 50,
               currentD = num 50\<rparr>
   \<and> stochastic (calculateIndicators ready_library klines17)
       = Some \<lparr>stoch_k = None, stoch_d = None, currentK = Undefined, currentD = Undefined\<rparr>"
proof -
  have h: "18 \<le> length klines18" "length klines17 < 18"
    by (simp_all add: klines18_def klines17_def)
  have r: "lib_stochastic ready_library xs ys zs 14 3
      = Some \<lparr>r_k = Some [num 50], r_d = Some [num 50]\<rparr>" for xs ys zs
    by (simp add: ready_library_def)
  have e: "stochastic_entry_of \<lparr>r_k = Some [num 50], r_d = Some [num 50]\<rparr>
      = \<lparr>stoch_k = Some [num 50], stoch_d = Some [num 50], currentK = num 50,
         currentD = num 50\<rparr>"
    by (simp add: stochastic_entry_of_def opt_array_def opt_last_def opt_length_def
        length_gt_def last_or_undefined_def elem_at_def)
  show ?thesis
    using h C8_stochastic_minimum [of klines18 ready_library]
      C8_stochastic_minimum [of klines17 ready_library]
    by (simp add: r e)
qed

end
